theory Spec2Isabelle
  imports Main
begin

section \<open>JavaScript values and strings\<close>

text \<open>
  A JavaScript string is a sequence of UTF-16 code units; a code unit is modelled as a
  natural number.  \<open>lit\<close> turns an ASCII literal of the source into its code units.
\<close>

type_synonym jsstring = "nat list"

definition lit :: "string \<Rightarrow> jsstring" where
  "lit s = map of_char s"

text \<open>
  The values that occur in this file: \<open>undefined\<close>, \<open>null\<close>, booleans and strings.
\<close>

datatype jsval = JUndefined | JNull | JBool bool | JStr jsstring

text \<open>ToBoolean.\<close>

fun truthy :: "jsval \<Rightarrow> bool" where
  "truthy JUndefined = False"
| "truthy JNull = False"
| "truthy (JBool b) = b"
| "truthy (JStr s) = (s \<noteq> [])"

text \<open>\<open>a && b\<close> and \<open>a || b\<close> return one of their operands.\<close>

definition js_and :: "jsval \<Rightarrow> jsval \<Rightarrow> jsval" where
  "js_and a b = (if truthy a then b else a)"

definition js_or :: "jsval \<Rightarrow> jsval \<Rightarrow> jsval" where
  "js_or a b = (if truthy a then a else b)"

text \<open>\<open>a !== b\<close> on the values above is structural inequality.\<close>

definition strict_neq :: "jsval \<Rightarrow> jsval \<Rightarrow> jsval" where
  "strict_neq a b = JBool (a \<noteq> b)"

text \<open>ToString, as a template literal applies it to an interpolated value.\<close>

fun toString :: "jsval \<Rightarrow> jsstring" where
  "toString JUndefined = lit ''undefined''"
| "toString JNull = lit ''null''"
| "toString (JBool b) = (if b then lit ''true'' else lit ''false'')"
| "toString (JStr s) = s"

text \<open>
  \<open>process.env[NAME]\<close>: the environment is a finite map from names to strings; a name
  that is not set reads as \<open>undefined\<close>.
\<close>

definition env_get :: "(jsstring \<rightharpoonup> jsstring) \<Rightarrow> jsstring \<Rightarrow> jsval" where
  "env_get env name = (case env name of None \<Rightarrow> JUndefined | Some v \<Rightarrow> JStr v)"

subsection \<open>\<open>String.prototype.trim\<close>\<close>

text \<open>
  \<open>trim\<close> strips WhiteSpace and LineTerminator code units from both ends: TAB, LF, VT,
  FF, CR, SPACE, NBSP, U+1680, U+2000 to U+200A, U+2028, U+2029, U+202F, U+205F,
  U+3000 and U+FEFF.
\<close>

definition isLineTerminator :: "nat \<Rightarrow> bool" where
  "isLineTerminator c = (c = 10 \<or> c = 13 \<or> c = 8232 \<or> c = 8233)"

definition isWhiteSpace :: "nat \<Rightarrow> bool" where
  "isWhiteSpace c =
     (c = 9 \<or> c = 11 \<or> c = 12 \<or> c = 32 \<or> c = 160 \<or> c = 5760 \<or> (8192 \<le> c \<and> c \<le> 8202)
      \<or> c = 8239 \<or> c = 8287 \<or> c = 12288 \<or> c = 65279)"

definition isTrimmed :: "nat \<Rightarrow> bool" where
  "isTrimmed c = (isWhiteSpace c \<or> isLineTerminator c)"

definition trim :: "jsstring \<Rightarrow> jsstring" where
  "trim s = rev (dropWhile isTrimmed (rev (dropWhile isTrimmed s)))"

subsection \<open>\<open>String.prototype.split\<close> with the separator \<open>/:(.+)/\<close>\<close>

text \<open>
  \<open>S.split(/:(.+)/)\<close> runs the steps of \<open>RegExp.prototype[@@split]\<close>: the pattern is
  tried at position \<open>q\<close> only (sticky); on a match ending at \<open>e\<close> the piece
  \<open>S[p..q)\<close> and the capture are appended and both \<open>p\<close> and \<open>q\<close> move to \<open>e\<close>;
  otherwise \<open>q\<close> advances by one.  The rest \<open>S[p..)\<close> is the last piece.

  The pattern \<open>:(.+)\<close> matches at \<open>q\<close> when \<open>S[q]\<close> is a colon and \<open>S[q+1]\<close>
  exists and is no line terminator (\<open>.\<close> excludes exactly those); the greedy capture
  is the longest run of such code units.
\<close>

definition colon :: nat where
  "colon = 58"

definition substring :: "jsstring \<Rightarrow> nat \<Rightarrow> nat \<Rightarrow> jsstring" where
  "substring S from to = take (to - from) (drop from S)"

definition capture :: "jsstring \<Rightarrow> nat \<Rightarrow> jsstring" where
  "capture S q = takeWhile (\<lambda>c. \<not> isLineTerminator c) (drop (Suc q) S)"

definition matchesAt :: "jsstring \<Rightarrow> nat \<Rightarrow> bool" where
  "matchesAt S q = (q < length S \<and> S ! q = colon \<and> capture S q \<noteq> [])"

function splitLoop :: "jsstring \<Rightarrow> nat \<Rightarrow> nat \<Rightarrow> jsstring list \<Rightarrow> jsstring list" where
  "splitLoop S p q A =
     (if q < length S then
        (if matchesAt S q then
           (let e = Suc q + length (capture S q) in
            if e = p then splitLoop S p (Suc q) A
            else splitLoop S e e (A @ [substring S p q, capture S q]))
         else splitLoop S p (Suc q) A)
      else A @ [substring S p (length S)])"
  by pat_completeness auto
termination
  by (relation "measure (\<lambda>(S, p, q, A). length S - q)")
     (auto simp: matchesAt_def capture_def
           dest!: le_trans [OF length_takeWhile_le])

declare splitLoop.simps [simp del]

definition js_split :: "jsstring \<Rightarrow> jsstring list" where
  "js_split S = (if S = [] then [S] else splitLoop S 0 0 [])"

text \<open>Reading index \<open>i\<close> of an array: \<open>undefined\<close> beyond its length.\<close>

definition at_index :: "jsstring list \<Rightarrow> nat \<Rightarrow> jsval" where
  "at_index xs i = (if i < length xs then JStr (xs ! i) else JUndefined)"

section \<open>Collaborators outside the file\<close>

text \<open>
  A thrown or rejected value: \<open>Error msg\<close> is \<open>new Error(msg)\<close> thrown by this file,
  \<open>Foreign msg\<close> is whatever a collaborator (Node's \<open>url\<close> and \<open>fs\<close>, the tunnel
  daemon, the driver) throws or rejects with.
\<close>

datatype error = Error jsstring | Foreign jsstring

text \<open>
  The object that Node's \<open>url.parse\<close> returns; \<open>null\<close> and \<open>undefined\<close> fields are
  \<open>None\<close>.
\<close>

record urlObject =
  protocol :: "jsstring option"
  slashes :: "bool option"
  auth :: "jsstring option"
  host :: "jsstring option"
  port :: "jsstring option"
  hostname :: "jsstring option"
  hash :: "jsstring option"
  search :: "jsstring option"
  query :: "jsstring option"
  pathname :: "jsstring option"
  path :: "jsstring option"
  href :: "jsstring option"

text \<open>
  What the file reads from the Node.js runtime.  \<open>url.parse\<close> may throw (a malformed
  escape in the credentials part of a URL); \<open>fs.mkdirSync\<close> may throw;
  \<open>fs.existsSync\<close> never does.  \<open>Date_now\<close> is in milliseconds.
\<close>

record node =
  process_env :: "jsstring \<rightharpoonup> jsstring"
  process_platform :: jsstring
  url_parse :: "jsstring \<Rightarrow> error + urlObject"
  url_format :: "urlObject \<Rightarrow> jsstring"
  path_resolve :: "jsstring \<Rightarrow> jsstring \<Rightarrow> jsstring"
  os_tmpdir :: jsstring
  fs_existsSync :: "jsstring \<Rightarrow> bool"
  fs_mkdirSync :: "jsstring \<Rightarrow> error option"
  Date_now :: int

text \<open>
  The observable actions, in the order they happen: every \<open>console\<close> call of the file
  (named after its message, with the interpolated values) and every call into the
  tunnel daemon, the file system and the driver.
\<close>

datatype event =
    WarnHostNotSet \<comment> \<open>line 39: the host url was not set, running against production\<close>
  | LogEndpoint jsstring \<comment> \<open>line 41: running e2e tests against endpoint ...\<close>
  | ErrorLog jsstring \<comment> \<open>line 52: \<open>console.error(errMsg)\<close>\<close>
  | WarnPort "jsstring option" \<comment> \<open>line 72: the host port is ... rather than the expected port\<close>
  | LogSettingUpLocal \<comment> \<open>line 95\<close>
  | NewLocal \<comment> \<open>line 96: \<open>new browserStackLocal()\<close>\<close>
  | LocalStart jsval jsstring \<comment> \<open>line 98: \<open>start({ key, force }, callback)\<close>\<close>
  | ErrorStartingLocal error \<comment> \<open>line 100\<close>
  | LogLocalStarted \<comment> \<open>line 103\<close>
  | LocalStop \<comment> \<open>line 114: \<open>stop(callback)\<close>\<close>
  | ErrorStoppingLocal error \<comment> \<open>line 116\<close>
  | MkdirSync jsstring \<comment> \<open>line 244: \<open>fs.mkdirSync(errDir, { recursive: true })\<close>\<close>
  | Screenshot jsstring \<comment> \<open>line 246: \<open>driver.screenshot(screenshotFile)\<close>\<close>
  | LogScreenshotSaved jsstring \<comment> \<open>line 247\<close>
  | WarnScreenshot error \<comment> \<open>lines 248 and 251\<close>
  | Quit \<comment> \<open>line 258: \<open>driver.quit()\<close>\<close>
  | WarnDisposing error \<comment> \<open>line 261\<close>

text \<open>
  A piece of the file runs to a value or throws, and leaves its actions behind.
\<close>

type_synonym 'a io = "event list \<times> (error + 'a)"

definition andThen :: "'a io \<Rightarrow> ('a \<Rightarrow> 'b io) \<Rightarrow> 'b io" where
  "andThen m f =
     (case m of
        (out, Inl e) \<Rightarrow> (out, Inl e)
      | (out, Inr a) \<Rightarrow> (case f a of (out', r) \<Rightarrow> (out @ out', r)))"

section \<open>The configuration and \<open>initializeConfig\<close>\<close>

record browserStack =
  enabled :: jsval
  user :: jsval
  key :: jsval
  localEnabled :: bool

record config =
  browserHostUrl :: jsstring
  browserStack :: browserStack

definition config0 :: config where
  "config0 = \<lparr>browserHostUrl = [],
     browserStack = \<lparr>enabled = JBool False, user = JStr [], key = JStr [], localEnabled = False\<rparr>\<rparr>"

definition E2E_BROWSER_HOST :: jsstring where
  "E2E_BROWSER_HOST = lit ''E2E_BROWSER_HOST''"

definition PROD_HOST :: jsstring where
  "PROD_HOST = lit ''https://browser.blockstack.org''"

definition USE_BROWSERSTACK :: jsstring where
  "USE_BROWSERSTACK = lit ''USE_BROWSERSTACK''"

definition BROWSERSTACK_AUTH :: jsstring where
  "BROWSERSTACK_AUTH = lit ''BROWSERSTACK_AUTH''"

definition expectedPort :: jsstring where
  "expectedPort = lit ''5757''"

definition BS_LOCAL :: jsstring where
  "BS_LOCAL = lit ''bs-local.com''"

text \<open>
  The message of line 51; the code units 96, 61 and 34 are the backquote, the equals
  sign and the double quote.
\<close>

definition errMsg :: jsstring where
  "errMsg = lit ''The BrowserStack auth must be set as environment variables. Use the format ''
     @ [96] @ BROWSERSTACK_AUTH @ [61, 34] @ lit ''user:key'' @ [34, 96]"

text \<open>Lines 34 to 42.  The value of \<open>||\<close> is a string here, and \<open>toString\<close> reads it.\<close>

definition resolveHost :: "node \<Rightarrow> config \<Rightarrow> config io" where
  "resolveHost node c =
     (let c' = c\<lparr>browserHostUrl :=
                 toString (js_or (env_get (process_env node) E2E_BROWSER_HOST) (JStr PROD_HOST))\<rparr>
      in if \<not> truthy (env_get (process_env node) E2E_BROWSER_HOST)
         then ([WarnHostNotSet], Inr c')
         else ([LogEndpoint (browserHostUrl c')], Inr c'))"

text \<open>Line 47.\<close>

definition browserStackEnabled :: "(jsstring \<rightharpoonup> jsstring) \<Rightarrow> jsval" where
  "browserStackEnabled env =
     js_and (env_get env USE_BROWSERSTACK)
            (strict_neq (env_get env USE_BROWSERSTACK) (JStr (lit ''false'')))"

text \<open>Line 56: the destructuring reads indices 0 and 1 of the split.\<close>

definition credentials :: "jsstring \<Rightarrow> jsval \<times> jsval" where
  "credentials browserstackAuth =
     (let parts = js_split (trim browserstackAuth) in (at_index parts 0, at_index parts 1))"

text \<open>Lines 44 to 57.\<close>

definition readBrowserStack :: "node \<Rightarrow> config \<Rightarrow> config io" where
  "readBrowserStack node c =
     (let c1 = c\<lparr>browserStack := (browserStack c)\<lparr>enabled := browserStackEnabled (process_env node)\<rparr>\<rparr>
      in if truthy (enabled (browserStack c1)) then
           (let browserstackAuth = env_get (process_env node) BROWSERSTACK_AUTH
            in if \<not> truthy browserstackAuth then ([ErrorLog errMsg], Inl (Error errMsg))
               else (case credentials (toString browserstackAuth) of
                       (u, k) \<Rightarrow> ([], Inr (c1\<lparr>browserStack := (browserStack c1)\<lparr>user := u, key := k\<rparr>\<rparr>))))
         else ([], Inr c1))"

text \<open>Lines 69 to 74: the port check only warns.\<close>

definition checkPort :: "config \<Rightarrow> urlObject \<Rightarrow> config io" where
  "checkPort c parsedUrl =
     (if localEnabled (browserStack c) \<and> port parsedUrl \<noteq> Some expectedPort
      then ([WarnPort (port parsedUrl)], Inr c)
      else ([], Inr c))"

text \<open>Lines 65 to 75.\<close>

definition detectLocal :: "node \<Rightarrow> config \<Rightarrow> config io" where
  "detectLocal node c =
     (if truthy (enabled (browserStack c)) then
        (case url_parse node (browserHostUrl c) of
           Inl e \<Rightarrow> ([], Inl e)
         | Inr parsedUrl \<Rightarrow>
             checkPort
               (c\<lparr>browserStack := (browserStack c)\<lparr>localEnabled :=
                    hostname parsedUrl \<in> set [Some (lit ''localhost''), Some (lit ''127.0.0.1'')]\<rparr>\<rparr>)
               parsedUrl)
      else ([], Inr c))"

text \<open>Lines 82 to 86.\<close>

definition rewriteHost :: "node \<Rightarrow> config \<Rightarrow> config io" where
  "rewriteHost node c =
     (if localEnabled (browserStack c) then
        (case url_parse node (browserHostUrl c) of
           Inl e \<Rightarrow> ([], Inl e)
         | Inr parsedUrl \<Rightarrow>
             ([], Inr (c\<lparr>browserHostUrl :=
                          url_format node (parsedUrl\<lparr>hostname := Some BS_LOCAL, host := None\<rparr>)\<rparr>)))
      else ([], Inr c))"

definition initializeConfig :: "node \<Rightarrow> config io" where
  "initializeConfig node =
     andThen (andThen (andThen (resolveHost node config0) (readBrowserStack node))
                      (detectLocal node))
             (rewriteHost node)"

text \<open>The host url that line 37 resolves, before any rewriting.\<close>

definition resolvedHost :: "node \<Rightarrow> jsstring" where
  "resolvedHost node =
     toString (js_or (env_get (process_env node) E2E_BROWSER_HOST) (JStr PROD_HOST))"

section \<open>The tunnel daemon and the root-level hooks\<close>

text \<open>
  A hook body runs to completion (\<open>Inr ()\<close>) or fails (\<open>Inl e\<close>: it throws, or the
  promise it returns rejects), which fails the run.

  What the tunnel daemon answers: the error that \<open>start\<close> and \<open>stop\<close> pass to their
  callbacks (\<open>None\<close> for success) and the value of \<open>isRunning()\<close> when the after hook
  asks.  A daemon that never calls back is left out.
\<close>

record tunnel =
  start_error :: "error option"
  isRunning :: bool
  stop_error :: "error option"

text \<open>
  Lines 91 to 109.  The hook returns the new value of \<open>blockStackLocalInstance\<close>:
  \<open>True\<close> once an instance has been stored in it.
\<close>

definition rootBefore :: "config \<Rightarrow> tunnel \<Rightarrow> bool \<Rightarrow> bool \<times> unit io" where
  "rootBefore c t blockStackLocalInstance =
     (if localEnabled (browserStack c) then
        (True,
         (case start_error t of
            Some e \<Rightarrow>
              ([LogSettingUpLocal, NewLocal, LocalStart (key (browserStack c)) (lit ''true''),
                ErrorStartingLocal e], Inl e)
          | None \<Rightarrow>
              ([LogSettingUpLocal, NewLocal, LocalStart (key (browserStack c)) (lit ''true''),
                LogLocalStarted], Inr ())))
      else (blockStackLocalInstance, ([], Inr ())))"

text \<open>Lines 110 to 124.\<close>

definition rootAfter :: "tunnel \<Rightarrow> bool \<Rightarrow> unit io" where
  "rootAfter t blockStackLocalInstance =
     (if blockStackLocalInstance \<and> isRunning t then
        (case stop_error t of
           Some e \<Rightarrow> ([LocalStop, ErrorStoppingLocal e], Inl e)
         | None \<Rightarrow> ([LocalStop], Inr ()))
      else ([], Inr ()))"

text \<open>
  One test process, as the test runner orders root-level hooks: the module is loaded
  once (\<open>blockStackLocalInstance\<close> starts undefined), the root \<open>before\<close> hook runs once
  before every suite, the suites run unless that hook failed, and the root \<open>after\<close>
  hook runs once after them.  The actions of the suites are of another type, so that
  the two kinds cannot be confused.
\<close>

datatype 'u action = Root event | Suite 'u

definition processRun :: "config \<Rightarrow> tunnel \<Rightarrow> 'u list \<Rightarrow> 'u action list" where
  "processRun c t suites =
     (case rootBefore c t False of
        (instance, (out, r)) \<Rightarrow>
          map Root out
          @ (case r of Inl e \<Rightarrow> [] | Inr u \<Rightarrow> map Suite suites)
          @ map Root (fst (rootAfter t instance)))"

section \<open>The hooks of a suite\<close>

text \<open>
  A call of a driver method throws, or returns a promise that resolves or rejects.
  A member that the driver object does not have is \<open>None\<close>: the handle is the empty
  object until the setup step has mixed the driver in.
\<close>

datatype call = Throws error | Resolves | Rejects error

record driver =
  screenshot :: "(jsstring \<Rightarrow> call) option"
  quit :: "call option"

definition emptyDriver :: driver where
  "emptyDriver = \<lparr>screenshot = None, quit = None\<rparr>"

text \<open>\<open>try { m } catch (err) { h err }\<close>.\<close>

definition tryCatch :: "'a io \<Rightarrow> (error \<Rightarrow> 'a io) \<Rightarrow> 'a io" where
  "tryCatch m h =
     (case m of
        (out, Inl e) \<Rightarrow> (case h e of (out', r) \<Rightarrow> (out @ out', r))
      | (out, Inr a) \<Rightarrow> (out, Inr a))"

text \<open>
  \<open>Date.now() / 1000 | 0\<close>: the quotient is truncated towards zero and reduced to a
  signed 32-bit integer.  (The division is in floating point; for every time value a
  \<open>Date\<close> can hold, its truncation is the integer quotient.)
\<close>

definition truncate_div :: "int \<Rightarrow> int \<Rightarrow> int" where
  "truncate_div a b = sgn a * (\<bar>a\<bar> div b)"

definition toInt32 :: "int \<Rightarrow> int" where
  "toInt32 n = (n + 2 ^ 31) mod 2 ^ 32 - 2 ^ 31"

fun show_nat :: "nat \<Rightarrow> jsstring" where
  "show_nat n = (if n < 10 then [48 + n] else show_nat (n div 10) @ [48 + n mod 10])"

declare show_nat.simps [simp del]

text \<open>An integer in a template literal: decimal digits, with a minus sign (45) if negative.\<close>

definition numberToString :: "int \<Rightarrow> jsstring" where
  "numberToString n = (if n < 0 then 45 # show_nat (nat (- n)) else show_nat (nat n))"

text \<open>Line 245; \<open>rnd\<close> is what \<open>helpers.getRandomString(6)\<close> returned.\<close>

definition screenshotName :: "int \<Rightarrow> jsstring \<Rightarrow> jsstring" where
  "screenshotName now rnd =
     lit ''screenshot-'' @ numberToString (toInt32 (truncate_div now 1000)) @ lit ''-'' @ rnd
     @ lit ''.png''"

text \<open>
  Lines 239 to 253.  \<open>getRandomString\<close> is the helper of \<open>./helpers\<close>, \<open>state\<close> is
  \<open>this.currentTest.state\<close> and \<open>d\<close> is \<open>testInputs.driver\<close>.
\<close>

definition takeScreenshot :: "node \<Rightarrow> (nat \<Rightarrow> jsstring) \<Rightarrow> (jsstring \<Rightarrow> call) \<Rightarrow> unit io" where
  "takeScreenshot node getRandomString shoot =
     (let errDir = path_resolve node (os_tmpdir node) (lit ''selenium-errors'') in
      andThen
        (if \<not> fs_existsSync node errDir then
           (case fs_mkdirSync node errDir of
              Some e \<Rightarrow> ([MkdirSync errDir], Inl e)
            | None \<Rightarrow> ([MkdirSync errDir], Inr ()))
         else ([], Inr ()))
        (\<lambda>u. let screenshotFile =
                   path_resolve node errDir (screenshotName (Date_now node) (getRandomString 6))
             in (case shoot screenshotFile of
                   Throws e \<Rightarrow> ([Screenshot screenshotFile], Inl e)
                 | Resolves \<Rightarrow>
                     ([Screenshot screenshotFile, LogScreenshotSaved screenshotFile], Inr ())
                 | Rejects e \<Rightarrow> ([Screenshot screenshotFile, WarnScreenshot e], Inr ()))))"

definition suiteAfterEach :: "node \<Rightarrow> (nat \<Rightarrow> jsstring) \<Rightarrow> jsval \<Rightarrow> driver \<Rightarrow> unit io" where
  "suiteAfterEach node getRandomString state d =
     tryCatch
       (if state = JStr (lit ''failed'') then
          (case screenshot d of
             Some shoot \<Rightarrow> takeScreenshot node getRandomString shoot
           | None \<Rightarrow> ([], Inr ()))
        else ([], Inr ()))
       (\<lambda>err. ([WarnScreenshot err], Inr ()))"

text \<open>Lines 255 to 263; \<open>await\<close> throws what a rejected promise rejects with.\<close>

definition suiteAfter :: "driver \<Rightarrow> unit io" where
  "suiteAfter d =
     tryCatch
       (case quit d of
          Some Resolves \<Rightarrow> ([Quit], Inr ())
        | Some (Throws e) \<Rightarrow> ([Quit], Inl e)
        | Some (Rejects e) \<Rightarrow> ([Quit], Inl e)
        | None \<Rightarrow> ([], Inr ()))
       (\<lambda>err. ([WarnDisposing err], Inr ()))"

section \<open>The environments and \<open>createTestSuites\<close>\<close>

text \<open>
  A capability object of \<open>./browserstack-environments\<close>: its properties in insertion
  order.  The table itself is a parameter of the model.
\<close>

type_synonym capability = "(jsstring \<times> jsval) list"

text \<open>Reading a property: \<open>undefined\<close> when absent.\<close>

fun getProperty :: "capability \<Rightarrow> jsstring \<Rightarrow> jsval" where
  "getProperty [] k = JUndefined"
| "getProperty ((k', v) # ps) k = (if k' = k then v else getProperty ps k)"

text \<open>Writing a property: in place when present, appended otherwise.\<close>

fun setProperty :: "capability \<Rightarrow> jsstring \<Rightarrow> jsval \<Rightarrow> capability" where
  "setProperty [] k v = [(k, v)]"
| "setProperty ((k', v') # ps) k v =
     (if k' = k then (k, v) # ps else (k', v') # setProperty ps k v)"

definition BROWSERSTACK_HUB_URL :: jsstring where
  "BROWSERSTACK_HUB_URL = lit ''http://hub-cloud.browserstack.com/wd/hub''"

text \<open>
  What \<open>createDriver\<close> builds: a session on the cloud hub with the capabilities, or a
  session of a local browser; both set the timeouts \<open>implicit: 1000, pageLoad: 10000\<close>
  and wrap the driver in an \<open>ExtendedWebDriver\<close>.
\<close>

datatype driverRequest = UsingServer jsstring capability | ForBrowser jsstring

record TestEnvironment =
  description :: jsval
  createDriver :: driverRequest

text \<open>
  Lines 139 to 160.  A generator is modelled by the list of what it yields.
\<close>

definition getBrowserstackEnvironments ::
    "config \<Rightarrow> capability list \<Rightarrow> jsval \<Rightarrow> jsval \<Rightarrow> TestEnvironment list" where
  "getBrowserstackEnvironments c browserStackEnvironments usr ky =
     map (\<lambda>capability.
            let capability1 =
                  setProperty (setProperty capability (lit ''browserstack.user'') usr)
                    (lit ''browserstack.key'') ky;
                capability2 =
                  (if localEnabled (browserStack c)
                   then setProperty capability1 (lit ''browserstack.local'') (JStr (lit ''true''))
                   else capability1)
            in \<lparr>description = getProperty capability2 (lit ''desc''),
                createDriver = UsingServer BROWSERSTACK_HUB_URL capability2\<rparr>)
         browserStackEnvironments"

text \<open>\<open>new Set(xs)\<close>: the first occurrence of every element, in insertion order.\<close>

fun newSet :: "'a list \<Rightarrow> 'a list \<Rightarrow> 'a list" where
  "newSet seen [] = []"
| "newSet seen (x # xs) = (if x \<in> set seen then newSet seen xs else x # newSet (x # seen) xs)"

text \<open>
  Lines 168 to 192.  Loading \<open>chromedriver\<close> and \<open>geckodriver\<close> is taken to succeed.
\<close>

definition getLocalSystemBrowserEnvironments :: "node \<Rightarrow> TestEnvironment list" where
  "getLocalSystemBrowserEnvironments node =
     (let browsers =
            [lit ''firefox'', lit ''chrome'']
            @ (if process_platform node = lit ''darwin'' then [lit ''safari'']
               else if process_platform node = lit ''win32'' then [lit ''edge'']
               else [])
      in map (\<lambda>browser.
                \<lparr>description = JStr (process_platform node @ lit '' '' @ browser),
                 createDriver = ForBrowser browser\<rparr>)
             (newSet [] browsers))"

text \<open>Lines 217 to 219.\<close>

definition testEnvironments :: "config \<Rightarrow> node \<Rightarrow> capability list \<Rightarrow> TestEnvironment list" where
  "testEnvironments c node browserStackEnvironments =
     (if truthy (enabled (browserStack c))
      then getBrowserstackEnvironments c browserStackEnvironments
             (user (browserStack c)) (key (browserStack c))
      else getLocalSystemBrowserEnvironments node)"

text \<open>
  The \<open>testInputs\<close> object as \<open>defineTests\<close> receives it: the driver handle is still
  the empty object.
\<close>

record TestInputs =
  envDesc :: jsval
  inputsBrowserHostUrl :: jsstring
  inputsDriver :: driver

text \<open>
  What one \<open>describe\<close> body registers, in order: the setup step (title, the driver it
  creates, its timeout), the call of the caller's \<open>defineTests\<close> with its argument,
  the \<open>afterEach\<close> hook and the \<open>after\<close> hook.
\<close>

datatype registration =
    Step jsstring driverRequest nat
  | DefineTests TestInputs
  | AfterEach
  | After

datatype suite = Describe jsstring "registration list"

text \<open>Lines 221 to 266: the loop over the environments.\<close>

primrec registerSuites :: "config \<Rightarrow> jsstring \<Rightarrow> TestEnvironment list \<Rightarrow> suite list" where
  "registerSuites c title [] = []"
| "registerSuites c title (testEnvironment # rest) =
     Describe (title @ lit '' ['' @ toString (description testEnvironment) @ lit '']'')
       [Step (lit ''create selenium webdriver'') (createDriver testEnvironment) 120000,
        DefineTests \<lparr>envDesc = description testEnvironment,
                     inputsBrowserHostUrl = browserHostUrl c,
                     inputsDriver = emptyDriver\<rparr>,
        AfterEach,
        After]
     # registerSuites c title rest"

definition createTestSuites :: "config \<Rightarrow> node \<Rightarrow> capability list \<Rightarrow> jsstring \<Rightarrow> suite list" where
  "createTestSuites c node browserStackEnvironments title =
     registerSuites c title (testEnvironments c node browserStackEnvironments)"

section \<open>Auxiliary notions for the statements\<close>

text \<open>The \<open>console\<close> output of lines 38 to 42.\<close>

definition hostEvents :: "node \<Rightarrow> event list" where
  "hostEvents node =
     (if \<not> truthy (env_get (process_env node) E2E_BROWSER_HOST) then [WarnHostNotSet]
      else [LogEndpoint (resolvedHost node)])"

text \<open>The test of line 67 on a parsed url.\<close>

definition isLocalHost :: "urlObject \<Rightarrow> bool" where
  "isLocalHost p = (hostname p = Some (lit ''localhost'') \<or> hostname p = Some (lit ''127.0.0.1''))"

text \<open>The directory of line 243.\<close>

definition errDirOf :: "node \<Rightarrow> jsstring" where
  "errDirOf node = path_resolve node (os_tmpdir node) (lit ''selenium-errors'')"

text \<open>
  Modelled from the spec: \<open>helpers.getRandomString\<close> of \<open>./helpers\<close> is not among the
  sources; the claim calls its result for the argument 6 a 6-character random string.
  A helper of that kind returns as many characters as it is asked for.
\<close>

definition returnsRequestedLength :: "(nat \<Rightarrow> jsstring) \<Rightarrow> bool" where
  "returnsRequestedLength getRandomString = (\<forall>n. length (getRandomString n) = n)"

section \<open>A concrete runtime\<close>

text \<open>
  A runtime to evaluate the model on: \<open>url.parse\<close> as a table of what Node returns for
  three urls, \<open>url.format\<close> for the fields that occur in them, POSIX paths, an empty
  temporary directory and a clock at 2019-11-03T00:00:00Z.
\<close>

definition exampleParse :: "jsstring \<Rightarrow> error + urlObject" where
  "exampleParse u =
     (if u = lit ''http://localhost:5757'' then
        Inr \<lparr>protocol = Some (lit ''http:''), slashes = Some True, auth = None,
             host = Some (lit ''localhost:5757''), port = Some (lit ''5757''),
             hostname = Some (lit ''localhost''), hash = None, search = None, query = None,
             pathname = Some (lit ''/''), path = Some (lit ''/''),
             href = Some (lit ''http://localhost:5757/'')\<rparr>
      else if u = lit ''http://localhost'' then
        Inr \<lparr>protocol = Some (lit ''http:''), slashes = Some True, auth = None,
             host = Some (lit ''localhost''), port = None,
             hostname = Some (lit ''localhost''), hash = None, search = None, query = None,
             pathname = Some (lit ''/''), path = Some (lit ''/''),
             href = Some (lit ''http://localhost/'')\<rparr>
      else if u = lit ''https://browser.blockstack.org'' then
        Inr \<lparr>protocol = Some (lit ''https:''), slashes = Some True, auth = None,
             host = Some (lit ''browser.blockstack.org''), port = None,
             hostname = Some (lit ''browser.blockstack.org''), hash = None, search = None,
             query = None, pathname = Some (lit ''/''), path = Some (lit ''/''),
             href = Some (lit ''https://browser.blockstack.org/'')\<rparr>
      else Inl (Foreign (lit ''URI malformed'')))"

definition orEmpty :: "jsstring option \<Rightarrow> jsstring" where
  "orEmpty x = (case x of None \<Rightarrow> [] | Some s \<Rightarrow> s)"

definition exampleFormat :: "urlObject \<Rightarrow> jsstring" where
  "exampleFormat p =
     orEmpty (protocol p) @ (if slashes p = Some True then lit ''//'' else [])
     @ (case host p of
          Some h \<Rightarrow> h
        | None \<Rightarrow> orEmpty (hostname p)
                  @ (case port p of None \<Rightarrow> [] | Some n \<Rightarrow> lit '':'' @ n))
     @ orEmpty (pathname p) @ orEmpty (search p) @ orEmpty (hash p)"

definition exampleNode :: "(jsstring \<rightharpoonup> jsstring) \<Rightarrow> node" where
  "exampleNode env =
     \<lparr>process_env = env, process_platform = lit ''linux'',
      url_parse = exampleParse, url_format = exampleFormat,
      path_resolve = (\<lambda>a b. a @ lit ''/'' @ b), os_tmpdir = lit ''/tmp'',
      fs_existsSync = (\<lambda>p. False), fs_mkdirSync = (\<lambda>p. None),
      Date_now = 1572739200000\<rparr>"

definition cloudEnv :: "jsstring \<Rightarrow> jsstring \<Rightarrow> (jsstring \<rightharpoonup> jsstring)" where
  "cloudEnv hostUrl credential =
     [E2E_BROWSER_HOST \<mapsto> hostUrl, USE_BROWSERSTACK \<mapsto> lit ''true'',
      BROWSERSTACK_AUTH \<mapsto> credential]"

definition exampleRandom :: "nat \<Rightarrow> jsstring" where
  "exampleRandom n = map (\<lambda>i. 97 + i mod 26) [0..<n]"

text \<open>Configurations, tunnel daemons and drivers to evaluate the hooks on.\<close>

definition exampleLocalConfig :: config where
  "exampleLocalConfig =
     \<lparr>browserHostUrl = lit ''http://bs-local.com:5757/'',
      browserStack = \<lparr>enabled = JBool True, user = JStr (lit ''user''),
                      key = JStr (lit ''key''), localEnabled = True\<rparr>\<rparr>"

definition exampleLocalSystemConfig :: config where
  "exampleLocalSystemConfig =
     \<lparr>browserHostUrl = lit ''https://browser.blockstack.org'',
      browserStack = \<lparr>enabled = JUndefined, user = JStr [], key = JStr [],
                      localEnabled = False\<rparr>\<rparr>"

definition failingTunnel :: tunnel where
  "failingTunnel =
     \<lparr>start_error = Some (Foreign (lit ''could not connect'')), isRunning = False,
      stop_error = None\<rparr>"

definition healthyTunnel :: tunnel where
  "healthyTunnel = \<lparr>start_error = None, isRunning = True, stop_error = None\<rparr>"

definition resolvingShoot :: "jsstring \<Rightarrow> call" where
  "resolvingShoot f = Resolves"

definition rejectingShoot :: "jsstring \<Rightarrow> call" where
  "rejectingShoot f = Rejects (Foreign (lit ''no such window''))"

definition readOnlyTmp :: node where
  "readOnlyTmp = (exampleNode Map.empty)\<lparr>fs_mkdirSync := (\<lambda>p. Some (Foreign (lit ''EACCES'')))\<rparr>"

section \<open>The runs of \<open>initializeConfig\<close>\<close>

lemmas init_defs = initializeConfig_def andThen_def resolveHost_def readBrowserStack_def
  detectLocal_def rewriteHost_def checkPort_def resolvedHost_def hostEvents_def config0_def Let_def

lemma init_disabled:
  assumes "\<not> truthy (browserStackEnabled (process_env node))"
  shows "initializeConfig node =
     (hostEvents node,
      Inr \<lparr>browserHostUrl = resolvedHost node,
           browserStack = \<lparr>enabled = browserStackEnabled (process_env node),
                           user = JStr [], key = JStr [], localEnabled = False\<rparr>\<rparr>)"
  using assms by (simp add: init_defs)

lemma init_auth_missing:
  assumes "truthy (browserStackEnabled (process_env node))"
      and "\<not> truthy (env_get (process_env node) BROWSERSTACK_AUTH)"
  shows "initializeConfig node = (hostEvents node @ [ErrorLog errMsg], Inl (Error errMsg))"
  using assms by (simp add: init_defs)

lemma init_parse_fails:
  assumes "truthy (browserStackEnabled (process_env node))"
      and "truthy (env_get (process_env node) BROWSERSTACK_AUTH)"
      and "url_parse node (resolvedHost node) = Inl e"
  shows "initializeConfig node = (hostEvents node, Inl e)"
  using assms by (simp add: init_defs split: prod.splits)

lemma init_remote:
  assumes "truthy (browserStackEnabled (process_env node))"
      and "truthy (env_get (process_env node) BROWSERSTACK_AUTH)"
      and "url_parse node (resolvedHost node) = Inr p"
      and "\<not> isLocalHost p"
  shows "initializeConfig node =
     (hostEvents node,
      Inr \<lparr>browserHostUrl = resolvedHost node,
           browserStack = \<lparr>enabled = browserStackEnabled (process_env node),
             user = fst (credentials (toString (env_get (process_env node) BROWSERSTACK_AUTH))),
             key = snd (credentials (toString (env_get (process_env node) BROWSERSTACK_AUTH))),
             localEnabled = False\<rparr>\<rparr>)"
  using assms by (simp add: init_defs isLocalHost_def split: prod.splits)

lemma init_local:
  assumes "truthy (browserStackEnabled (process_env node))"
      and "truthy (env_get (process_env node) BROWSERSTACK_AUTH)"
      and "url_parse node (resolvedHost node) = Inr p"
      and "isLocalHost p"
  shows "initializeConfig node =
     (hostEvents node @ (if port p \<noteq> Some expectedPort then [WarnPort (port p)] else []),
      Inr \<lparr>browserHostUrl = url_format node (p\<lparr>hostname := Some BS_LOCAL, host := None\<rparr>),
           browserStack = \<lparr>enabled = browserStackEnabled (process_env node),
             user = fst (credentials (toString (env_get (process_env node) BROWSERSTACK_AUTH))),
             key = snd (credentials (toString (env_get (process_env node) BROWSERSTACK_AUTH))),
             localEnabled = True\<rparr>\<rparr>)"
  using assms by (auto simp add: init_defs isLocalHost_def split: prod.splits)

text \<open>
  Every run of \<open>initializeConfig\<close> is one of these five.
\<close>

lemma init_cases:
  obtains
    (disabled) "\<not> truthy (browserStackEnabled (process_env node))"
  | (auth_missing) "truthy (browserStackEnabled (process_env node))"
      "\<not> truthy (env_get (process_env node) BROWSERSTACK_AUTH)"
  | (parse_fails) e where "truthy (browserStackEnabled (process_env node))"
      "truthy (env_get (process_env node) BROWSERSTACK_AUTH)"
      "url_parse node (resolvedHost node) = Inl e"
  | (remote) p where "truthy (browserStackEnabled (process_env node))"
      "truthy (env_get (process_env node) BROWSERSTACK_AUTH)"
      "url_parse node (resolvedHost node) = Inr p" "\<not> isLocalHost p"
  | (local) p where "truthy (browserStackEnabled (process_env node))"
      "truthy (env_get (process_env node) BROWSERSTACK_AUTH)"
      "url_parse node (resolvedHost node) = Inr p" "isLocalHost p"
  by (cases "url_parse node (resolvedHost node)") blast+

lemma enabled_truthy_iff:
  "truthy (browserStackEnabled env) \<longleftrightarrow>
     (\<exists>v. env USE_BROWSERSTACK = Some v \<and> v \<noteq> [] \<and> v \<noteq> lit ''false'')"
  by (auto simp: browserStackEnabled_def js_and_def strict_neq_def env_get_def split: option.splits)

lemma enabled_truthy_True:
  "truthy (browserStackEnabled env) \<Longrightarrow> browserStackEnabled env = JBool True"
  by (auto simp: browserStackEnabled_def js_and_def strict_neq_def env_get_def split: option.splits if_splits)

lemma env_falsy_iff: "\<not> truthy (env_get env k) \<longleftrightarrow> env k = None \<or> env k = Some []"
  by (simp add: env_get_def split: option.splits)

lemma init_enabled:
  assumes "snd (initializeConfig node) = Inr cfg"
  shows "enabled (browserStack cfg) = browserStackEnabled (process_env node)"
proof (cases rule: init_cases [of node])
  case disabled
  with assms show ?thesis by (auto simp: init_disabled)
next
  case auth_missing
  with assms show ?thesis by (simp add: init_auth_missing)
next
  case (parse_fails e)
  with assms show ?thesis by (simp add: init_parse_fails)
next
  case (remote p)
  with assms show ?thesis by (auto simp: init_remote)
next
  case (local p)
  with assms show ?thesis by (auto simp: init_local)
qed

section \<open>The split at the colon\<close>

lemmas split_eval = credentials_def js_split_def splitLoop.simps matchesAt_def capture_def substring_def
  colon_def isLineTerminator_def trim_def isTrimmed_def isWhiteSpace_def at_index_def lit_def Let_def

lemma splitLoop_prefix: "\<exists>R. splitLoop S p q A = A @ R \<and> R \<noteq> []"
proof (induction S p q A rule: splitLoop.induct)
  case (1 S p q A)
  show ?case
    using "1.IH" by (subst splitLoop.simps) (auto simp: Let_def)
qed

lemma splitLoop_no_match:
  "(\<And>j. q \<le> j \<Longrightarrow> j < length S \<Longrightarrow> \<not> matchesAt S j) \<Longrightarrow>
     splitLoop S p q A = A @ [drop p S]"
proof (induction S p q A rule: splitLoop.induct)
  case (1 S p q A)
  show ?case
  proof (cases "q < length S")
    case True
    then have nm: "\<not> matchesAt S q" using "1.prems" by simp
    have "splitLoop S p (Suc q) A = A @ [drop p S]"
      using "1.IH"(3) [OF True nm] "1.prems" by simp
    then show ?thesis using True nm by (subst splitLoop.simps) simp
  next
    case False
    then show ?thesis by (subst splitLoop.simps) (simp add: substring_def)
  qed
qed

lemma splitLoop_first_match:
  assumes "matchesAt S i"
  shows "p \<le> q \<Longrightarrow> q \<le> i \<Longrightarrow> (\<And>j. q \<le> j \<Longrightarrow> j < i \<Longrightarrow> \<not> matchesAt S j) \<Longrightarrow>
     \<exists>R. splitLoop S p q A = A @ [substring S p i, capture S i] @ R"
proof (induction "i - q" arbitrary: q)
  case 0
  then have qi: "q = i" by simp
  have lt: "i < length S" using assms(1) by (simp add: matchesAt_def)
  have ne: "Suc i + length (capture S i) \<noteq> p" using 0 by simp
  obtain R where "splitLoop S (Suc i + length (capture S i)) (Suc i + length (capture S i))
      (A @ [substring S p i, capture S i]) = (A @ [substring S p i, capture S i]) @ R"
    using splitLoop_prefix by blast
  then show ?case
    using lt assms(1) ne qi by (subst splitLoop.simps) (simp add: Let_def)
next
  case (Suc n)
  then have lt: "q < i" by simp
  then have ql: "q < length S" using assms(1) by (simp add: matchesAt_def)
  have nm: "\<not> matchesAt S q" using Suc.prems(3) lt by simp
  have "\<exists>R. splitLoop S p (Suc q) A = A @ [substring S p i, capture S i] @ R"
    using Suc.hyps(1) [of "Suc q"] Suc.hyps(2) Suc.prems lt by simp
  then show ?case using ql nm by (subst splitLoop.simps) simp
qed

lemma credentials_no_match:
  assumes "\<And>j. j < length (trim a) \<Longrightarrow> \<not> matchesAt (trim a) j"
  shows "credentials a = (JStr (trim a), JUndefined)"
proof -
  have "splitLoop (trim a) 0 0 [] = [trim a]"
    using splitLoop_no_match [of 0 "trim a" 0 "[]"] assms by simp
  then show ?thesis
    by (simp add: credentials_def js_split_def at_index_def)
qed

lemma credentials_first_match:
  assumes "matchesAt (trim a) i" and "\<And>j. j < i \<Longrightarrow> \<not> matchesAt (trim a) j"
  shows "credentials a = (JStr (take i (trim a)), JStr (capture (trim a) i))"
proof -
  have ne: "trim a \<noteq> []" using assms(1) by (auto simp: matchesAt_def)
  obtain R where "splitLoop (trim a) 0 0 [] = [substring (trim a) 0 i, capture (trim a) i] @ R"
    using splitLoop_first_match [OF assms(1), of 0 0 "[]"] assms(2) by auto
  then show ?thesis
    using ne by (simp add: credentials_def js_split_def at_index_def substring_def)
qed

text \<open>
  The pattern matches at a colon that a code unit other than a line terminator follows.
\<close>

lemma matchesAt_iff:
  "matchesAt S q \<longleftrightarrow> S ! q = colon \<and> Suc q < length S \<and> \<not> isLineTerminator (S ! Suc q)"
proof (cases "Suc q < length S")
  case True
  then have "drop (Suc q) S = S ! Suc q # drop (Suc (Suc q)) S"
    by (simp add: Cons_nth_drop_Suc)
  then show ?thesis using True by (simp add: matchesAt_def capture_def)
next
  case False
  then show ?thesis by (simp add: matchesAt_def capture_def)
qed

lemma capture_nonempty: "matchesAt S q \<Longrightarrow> capture S q \<noteq> []"
  by (simp add: matchesAt_def)

lemma credentials_cases:
  obtains (none) "credentials a = (JStr (trim a), JUndefined)"
      "\<And>j. j < length (trim a) \<Longrightarrow> \<not> matchesAt (trim a) j"
  | (first) i where "credentials a = (JStr (take i (trim a)), JStr (capture (trim a) i))"
      "matchesAt (trim a) i" "\<And>j. j < i \<Longrightarrow> \<not> matchesAt (trim a) j"
proof (cases "\<exists>i. matchesAt (trim a) i")
  case True
  define i where "i = (LEAST i. matchesAt (trim a) i)"
  have m: "matchesAt (trim a) i" unfolding i_def using True by (blast intro: LeastI_ex)
  have l: "\<And>j. j < i \<Longrightarrow> \<not> matchesAt (trim a) j"
    unfolding i_def by (blast dest: not_less_Least)
  show ?thesis using first [of i] credentials_first_match [OF m l] m l by blast
next
  case False
  then have n: "\<And>j. j < length (trim a) \<Longrightarrow> \<not> matchesAt (trim a) j" by blast
  show ?thesis using none credentials_no_match [OF n] n by blast
qed

lemma init_credentials:
  assumes "snd (initializeConfig node) = Inr cfg" and "truthy (enabled (browserStack cfg))"
  shows "\<exists>a. process_env node BROWSERSTACK_AUTH = Some a \<and> a \<noteq> []
           \<and> (user (browserStack cfg), key (browserStack cfg)) = credentials a"
proof -
  have en: "truthy (browserStackEnabled (process_env node))"
    using assms init_enabled by simp
  have shape: "truthy (env_get (process_env node) BROWSERSTACK_AUTH)
      \<and> user (browserStack cfg) = fst (credentials (toString (env_get (process_env node) BROWSERSTACK_AUTH)))
      \<and> key (browserStack cfg) = snd (credentials (toString (env_get (process_env node) BROWSERSTACK_AUTH)))"
  proof (cases rule: init_cases [of node])
    case disabled
    with en show ?thesis by simp
  next
    case auth_missing
    with assms show ?thesis by (simp add: init_auth_missing)
  next
    case (parse_fails e)
    with assms show ?thesis by (simp add: init_parse_fails)
  next
    case (remote p)
    with assms(1) show ?thesis by (auto simp: init_remote)
  next
    case (local p)
    with assms(1) show ?thesis by (auto simp: init_local)
  qed
  then obtain a where a: "process_env node BROWSERSTACK_AUTH = Some a" "a \<noteq> []"
    by (auto simp: env_get_def split: option.splits)
  with shape show ?thesis by (simp add: env_get_def)
qed

section \<open>The model on the concrete runtime\<close>

lemmas example_defs = exampleNode_def cloudEnv_def exampleParse_def exampleFormat_def orEmpty_def
  E2E_BROWSER_HOST_def USE_BROWSERSTACK_def BROWSERSTACK_AUTH_def PROD_HOST_def expectedPort_def
  BS_LOCAL_def lit_def

lemmas run_eval = init_defs example_defs split_eval

lemma example_init_local:
  "initializeConfig (exampleNode (cloudEnv (lit ''http://localhost:5757'') (lit ''user:key''))) =
     ([LogEndpoint (lit ''http://localhost:5757'')],
      Inr \<lparr>browserHostUrl = lit ''http://bs-local.com:5757/'',
           browserStack = \<lparr>enabled = JBool True, user = JStr (lit ''user''),
                           key = JStr (lit ''key''), localEnabled = True\<rparr>\<rparr>)"
  by (simp add: run_eval browserStackEnabled_def js_and_def js_or_def strict_neq_def env_get_def)

lemma example_init_noport:
  "initializeConfig (exampleNode (cloudEnv (lit ''http://localhost'') (lit ''user:key''))) =
     ([LogEndpoint (lit ''http://localhost''), WarnPort None],
      Inr \<lparr>browserHostUrl = lit ''http://bs-local.com/'',
           browserStack = \<lparr>enabled = JBool True, user = JStr (lit ''user''),
                           key = JStr (lit ''key''), localEnabled = True\<rparr>\<rparr>)"
  by (simp add: run_eval browserStackEnabled_def js_and_def js_or_def strict_neq_def env_get_def)

lemma example_init_useronly:
  "initializeConfig (exampleNode (cloudEnv (lit ''https://browser.blockstack.org'') (lit ''useronly''))) =
     ([LogEndpoint (lit ''https://browser.blockstack.org'')],
      Inr \<lparr>browserHostUrl = lit ''https://browser.blockstack.org'',
           browserStack = \<lparr>enabled = JBool True, user = JStr (lit ''useronly''),
                           key = JUndefined, localEnabled = False\<rparr>\<rparr>)"
  by (simp add: run_eval browserStackEnabled_def js_and_def js_or_def strict_neq_def env_get_def)

lemma example_init_empty:
  "initializeConfig (exampleNode Map.empty) =
     ([WarnHostNotSet],
      Inr \<lparr>browserHostUrl = lit ''https://browser.blockstack.org'',
           browserStack = \<lparr>enabled = JUndefined, user = JStr [],
                           key = JStr [], localEnabled = False\<rparr>\<rparr>)"
  by (simp add: run_eval browserStackEnabled_def js_and_def js_or_def strict_neq_def env_get_def)

section \<open>The hooks and the suites\<close>

lemmas hook_defs = suiteAfterEach_def suiteAfter_def takeScreenshot_def tryCatch_def andThen_def
  rootBefore_def rootAfter_def Let_def

lemma suiteAfterEach_completes: "snd (suiteAfterEach node g state d) = Inr ()"
  by (simp add: hook_defs split: option.splits call.splits)

lemma suiteAfter_completes: "snd (suiteAfter d) = Inr ()"
  by (simp add: hook_defs split: option.splits call.splits)

lemma processRun_shape:
  "processRun c t suites =
     map Root (fst (snd (rootBefore c t False)))
     @ (if localEnabled (browserStack c) \<and> start_error t \<noteq> None then [] else map Suite suites)
     @ map Root (fst (rootAfter t (localEnabled (browserStack c))))"
  by (auto simp: processRun_def rootBefore_def split: option.splits)

text \<open>
  While the clock is between 1970 and 2038-01-19T03:14:08Z, the number in the file name
  is the Unix timestamp in seconds.
\<close>

lemma seconds_in_range:
  assumes "0 \<le> now" and "now < 2 ^ 31 * 1000"
  shows "numberToString (toInt32 (truncate_div now 1000)) = show_nat (nat (now div 1000))"
proof -
  have t: "truncate_div now 1000 = now div 1000"
    using assms(1) by (cases "now = 0") (simp_all add: truncate_div_def)
  have lo: "0 \<le> now div 1000" using assms(1) by simp
  have hi: "now div 1000 < 2 ^ 31" using assms(2) by simp
  have "toInt32 (now div 1000) = now div 1000"
    using lo hi by (simp add: toInt32_def)
  with t lo show ?thesis by (simp add: numberToString_def)
qed

lemma exampleRandom_6: "exampleRandom 6 = lit ''abcdef''"
  by (simp add: exampleRandom_def lit_def upt_conv_Cons)

lemma exampleRandom_length: "returnsRequestedLength exampleRandom"
  by (simp add: returnsRequestedLength_def exampleRandom_def)

lemma registerSuites_length: "length (registerSuites c title envs) = length envs"
  by (induction envs) simp_all

lemma registerSuites_nth:
  "i < length envs \<Longrightarrow>
     registerSuites c title envs ! i =
       Describe (title @ lit '' ['' @ toString (description (envs ! i)) @ lit '']'')
         [Step (lit ''create selenium webdriver'') (createDriver (envs ! i)) 120000,
          DefineTests \<lparr>envDesc = description (envs ! i),
                       inputsBrowserHostUrl = browserHostUrl c,
                       inputsDriver = emptyDriver\<rparr>,
          AfterEach, After]"
proof (induction envs arbitrary: i)
  case Nil
  then show ?case by simp
next
  case (Cons x xs)
  then show ?case by (cases i) simp_all
qed

lemma local_linux:
  "getLocalSystemBrowserEnvironments (exampleNode env) =
     [\<lparr>description = JStr (lit ''linux firefox''), createDriver = ForBrowser (lit ''firefox'')\<rparr>,
      \<lparr>description = JStr (lit ''linux chrome''), createDriver = ForBrowser (lit ''chrome'')\<rparr>]"
  by (simp add: getLocalSystemBrowserEnvironments_def exampleNode_def lit_def)

section \<open>The claims\<close>

text \<open>
  Claim C1.  If cloud mode is enabled and \<open>BROWSERSTACK_AUTH\<close> is unset or empty,
  \<open>initializeConfig\<close> logs the message of line 51 and throws an \<open>Error\<close> with it.
  If cloud mode is disabled it returns a configuration and never logs that message,
  whatever the credentials are.
\<close>

theorem missing_credentials_fatal:
  "(truthy (browserStackEnabled (process_env node)) \<longrightarrow>
      (process_env node BROWSERSTACK_AUTH = None \<or> process_env node BROWSERSTACK_AUTH = Some []) \<longrightarrow>
      snd (initializeConfig node) = Inl (Error errMsg)
      \<and> ErrorLog errMsg \<in> set (fst (initializeConfig node)))
   \<and> (\<not> truthy (browserStackEnabled (process_env node)) \<longrightarrow>
        (\<exists>cfg. snd (initializeConfig node) = Inr cfg)
        \<and> ErrorLog errMsg \<notin> set (fst (initializeConfig node)))"
proof (intro conjI impI)
  assume en: "truthy (browserStackEnabled (process_env node))"
    and "process_env node BROWSERSTACK_AUTH = None \<or> process_env node BROWSERSTACK_AUTH = Some []"
  then have "\<not> truthy (env_get (process_env node) BROWSERSTACK_AUTH)"
    by (simp add: env_falsy_iff)
  with en have "initializeConfig node = (hostEvents node @ [ErrorLog errMsg], Inl (Error errMsg))"
    by (rule init_auth_missing)
  then show "snd (initializeConfig node) = Inl (Error errMsg)"
    and "ErrorLog errMsg \<in> set (fst (initializeConfig node))" by simp_all
next
  assume dis: "\<not> truthy (browserStackEnabled (process_env node))"
  show "\<exists>cfg. snd (initializeConfig node) = Inr cfg"
    by (simp add: init_disabled [OF dis])
  show "ErrorLog errMsg \<notin> set (fst (initializeConfig node))"
    by (simp add: init_disabled [OF dis] hostEvents_def)
qed

text \<open>
  C1 on the concrete runtime: \<open>USE_BROWSERSTACK=true\<close> without credentials throws, the
  empty environment gives the production configuration.
\<close>

theorem missing_credentials_fatal_witness:
  "snd (initializeConfig (exampleNode [USE_BROWSERSTACK \<mapsto> lit ''true''])) = Inl (Error errMsg)
   \<and> ErrorLog errMsg \<in> set (fst (initializeConfig (exampleNode [USE_BROWSERSTACK \<mapsto> lit ''true''])))
   \<and> snd (initializeConfig (exampleNode Map.empty)) =
       Inr \<lparr>browserHostUrl = lit ''https://browser.blockstack.org'',
            browserStack = \<lparr>enabled = JUndefined, user = JStr [],
                            key = JStr [], localEnabled = False\<rparr>\<rparr>"
proof -
  have en: "truthy (browserStackEnabled (process_env (exampleNode [USE_BROWSERSTACK \<mapsto> lit ''true''])))"
    by (simp add: enabled_truthy_iff example_defs)
  have unset: "process_env (exampleNode [USE_BROWSERSTACK \<mapsto> lit ''true'']) BROWSERSTACK_AUTH = None"
    by (simp add: example_defs)
  have dis: "\<not> truthy (browserStackEnabled (process_env (exampleNode Map.empty)))"
    by (simp add: enabled_truthy_iff example_defs)
  from missing_credentials_fatal [of "exampleNode [USE_BROWSERSTACK \<mapsto> lit ''true'']"] en unset
  have a: "snd (initializeConfig (exampleNode [USE_BROWSERSTACK \<mapsto> lit ''true''])) = Inl (Error errMsg)
     \<and> ErrorLog errMsg \<in> set (fst (initializeConfig (exampleNode [USE_BROWSERSTACK \<mapsto> lit ''true''])))"
    by blast
  from missing_credentials_fatal [of "exampleNode Map.empty"] dis
  have "\<exists>cfg. snd (initializeConfig (exampleNode Map.empty)) = Inr cfg" by blast
  then have b: "snd (initializeConfig (exampleNode Map.empty)) =
       Inr \<lparr>browserHostUrl = lit ''https://browser.blockstack.org'',
            browserStack = \<lparr>enabled = JUndefined, user = JStr [],
                            key = JStr [], localEnabled = False\<rparr>\<rparr>"
    by (simp add: example_init_empty)
  from a b show ?thesis by simp
qed

text \<open>
  Claim C2, amended.  A failure of the screenshot (creating the directory, or the
  driver's \<open>screenshot\<close> throwing or rejecting) and a failure of \<open>driver.quit()\<close> are
  logged as warnings and swallowed: \<open>afterEach\<close> and the suite's \<open>after\<close> hook always
  complete.  A failure of the tunnel daemon's \<open>start\<close> or \<open>stop\<close> is logged and then
  handed on: the root-level hook fails with that error.
\<close>

theorem hook_failures:
  "snd (suiteAfterEach node g state d) = Inr ()
   \<and> (state = JStr (lit ''failed'') \<and> screenshot d = Some shoot
        \<and> \<not> fs_existsSync node (errDirOf node) \<and> fs_mkdirSync node (errDirOf node) = Some e \<longrightarrow>
        WarnScreenshot e \<in> set (fst (suiteAfterEach node g state d)))
   \<and> (state = JStr (lit ''failed'') \<and> screenshot d = Some shoot
        \<and> (fs_existsSync node (errDirOf node) \<or> fs_mkdirSync node (errDirOf node) = None)
        \<and> (shoot (path_resolve node (errDirOf node) (screenshotName (Date_now node) (g 6))) = Throws e
           \<or> shoot (path_resolve node (errDirOf node) (screenshotName (Date_now node) (g 6))) = Rejects e) \<longrightarrow>
        WarnScreenshot e \<in> set (fst (suiteAfterEach node g state d)))
   \<and> snd (suiteAfter d) = Inr ()
   \<and> (quit d = Some (Throws e) \<or> quit d = Some (Rejects e) \<longrightarrow>
        fst (suiteAfter d) = [Quit, WarnDisposing e])
   \<and> (localEnabled (browserStack c) \<and> start_error t = Some e \<longrightarrow>
        snd (snd (rootBefore c t instance)) = Inl e
        \<and> ErrorStartingLocal e \<in> set (fst (snd (rootBefore c t instance))))
   \<and> (instance \<and> isRunning t \<and> stop_error t = Some e \<longrightarrow>
        snd (rootAfter t instance) = Inl e
        \<and> ErrorStoppingLocal e \<in> set (fst (rootAfter t instance)))"
proof (intro conjI)
  show "snd (suiteAfterEach node g state d) = Inr ()" by (rule suiteAfterEach_completes)
  show "snd (suiteAfter d) = Inr ()" by (rule suiteAfter_completes)
  show "state = JStr (lit ''failed'') \<and> screenshot d = Some shoot
        \<and> \<not> fs_existsSync node (errDirOf node) \<and> fs_mkdirSync node (errDirOf node) = Some e \<longrightarrow>
        WarnScreenshot e \<in> set (fst (suiteAfterEach node g state d))"
    by (simp add: hook_defs errDirOf_def)
  show "state = JStr (lit ''failed'') \<and> screenshot d = Some shoot
        \<and> (fs_existsSync node (errDirOf node) \<or> fs_mkdirSync node (errDirOf node) = None)
        \<and> (shoot (path_resolve node (errDirOf node) (screenshotName (Date_now node) (g 6))) = Throws e
           \<or> shoot (path_resolve node (errDirOf node) (screenshotName (Date_now node) (g 6))) = Rejects e) \<longrightarrow>
        WarnScreenshot e \<in> set (fst (suiteAfterEach node g state d))"
    by (auto simp add: hook_defs errDirOf_def)
  show "quit d = Some (Throws e) \<or> quit d = Some (Rejects e) \<longrightarrow>
        fst (suiteAfter d) = [Quit, WarnDisposing e]"
    by (auto simp add: hook_defs)
  show "localEnabled (browserStack c) \<and> start_error t = Some e \<longrightarrow>
        snd (snd (rootBefore c t instance)) = Inl e
        \<and> ErrorStartingLocal e \<in> set (fst (snd (rootBefore c t instance)))"
    by (simp add: hook_defs)
  show "instance \<and> isRunning t \<and> stop_error t = Some e \<longrightarrow>
        snd (rootAfter t instance) = Inl e
        \<and> ErrorStoppingLocal e \<in> set (fst (rootAfter t instance))"
    by (simp add: hook_defs)
qed

text \<open>
  C2 on concrete hooks: a rejecting screenshot and a rejecting \<open>quit\<close> are swallowed,
  a failing \<open>start\<close> and a failing \<open>stop\<close> fail their hooks.
\<close>

theorem hook_failures_witness:
  "snd (suiteAfterEach (exampleNode Map.empty) exampleRandom (JStr (lit ''failed''))
          \<lparr>screenshot = Some rejectingShoot, quit = Some (Rejects (Foreign (lit ''gone'')))\<rparr>) = Inr ()
   \<and> WarnScreenshot (Foreign (lit ''no such window''))
       \<in> set (fst (suiteAfterEach (exampleNode Map.empty) exampleRandom (JStr (lit ''failed''))
          \<lparr>screenshot = Some rejectingShoot, quit = Some (Rejects (Foreign (lit ''gone'')))\<rparr>))
   \<and> suiteAfter \<lparr>screenshot = Some rejectingShoot, quit = Some (Rejects (Foreign (lit ''gone'')))\<rparr> =
       ([Quit, WarnDisposing (Foreign (lit ''gone''))], Inr ())
   \<and> snd (snd (rootBefore exampleLocalConfig failingTunnel False)) =
       Inl (Foreign (lit ''could not connect''))
   \<and> ErrorStartingLocal (Foreign (lit ''could not connect''))
       \<in> set (fst (snd (rootBefore exampleLocalConfig failingTunnel False)))
   \<and> snd (rootAfter (healthyTunnel\<lparr>stop_error := Some (Foreign (lit ''kill failed''))\<rparr>) True) =
       Inl (Foreign (lit ''kill failed''))"
proof -
  let ?node = "exampleNode Map.empty"
  let ?d = "\<lparr>screenshot = Some rejectingShoot, quit = Some (Rejects (Foreign (lit ''gone'')))\<rparr>"
  let ?t = "healthyTunnel\<lparr>stop_error := Some (Foreign (lit ''kill failed''))\<rparr>"
  have h1: "JStr (lit ''failed'') = JStr (lit ''failed'') \<and> screenshot ?d = Some rejectingShoot
        \<and> (fs_existsSync ?node (errDirOf ?node) \<or> fs_mkdirSync ?node (errDirOf ?node) = None)
        \<and> (rejectingShoot (path_resolve ?node (errDirOf ?node)
              (screenshotName (Date_now ?node) (exampleRandom 6))) = Throws (Foreign (lit ''no such window''))
           \<or> rejectingShoot (path_resolve ?node (errDirOf ?node)
              (screenshotName (Date_now ?node) (exampleRandom 6))) = Rejects (Foreign (lit ''no such window'')))"
    by (simp add: exampleNode_def rejectingShoot_def)
  have h2: "quit ?d = Some (Throws (Foreign (lit ''gone''))) \<or> quit ?d = Some (Rejects (Foreign (lit ''gone'')))"
    by simp
  have h3: "localEnabled (browserStack exampleLocalConfig)
      \<and> start_error failingTunnel = Some (Foreign (lit ''could not connect''))"
    by (simp add: exampleLocalConfig_def failingTunnel_def)
  have h4: "True \<and> isRunning ?t \<and> stop_error ?t = Some (Foreign (lit ''kill failed''))"
    by (simp add: healthyTunnel_def)
  note hf = hook_failures [of ?node exampleRandom "JStr (lit ''failed'')" ?d rejectingShoot _ _ _ _]
  have 1: "snd (suiteAfterEach ?node exampleRandom (JStr (lit ''failed'')) ?d) = Inr ()"
    using hf by blast
  have 2: "WarnScreenshot (Foreign (lit ''no such window''))
       \<in> set (fst (suiteAfterEach ?node exampleRandom (JStr (lit ''failed'')) ?d))"
    using hf [of "Foreign (lit ''no such window'')"] h1 by blast
  have 3: "fst (suiteAfter ?d) = [Quit, WarnDisposing (Foreign (lit ''gone''))] \<and> snd (suiteAfter ?d) = Inr ()"
    using hf [of "Foreign (lit ''gone'')"] h2 by blast
  have 4: "snd (snd (rootBefore exampleLocalConfig failingTunnel False)) =
       Inl (Foreign (lit ''could not connect''))
     \<and> ErrorStartingLocal (Foreign (lit ''could not connect''))
       \<in> set (fst (snd (rootBefore exampleLocalConfig failingTunnel False)))"
    using hf [of "Foreign (lit ''could not connect'')" exampleLocalConfig failingTunnel False] h3 by blast
  have 5: "snd (rootAfter ?t True) = Inl (Foreign (lit ''kill failed''))"
    using hf [of "Foreign (lit ''kill failed'')" _ ?t True] h4 by blast
  from 3 have q3: "suiteAfter ?d = ([Quit, WarnDisposing (Foreign (lit ''gone''))], Inr ())"
    by (simp add: prod_eq_iff)
  from 1 2 q3 4 5 show ?thesis by blast
qed

text \<open>
  C2 as stated fails: with the local tunnel enabled and a daemon that cannot start, the
  root \<open>before\<close> hook logs the error and fails with it.
\<close>

theorem hook_failures_counterexample:
  "rootBefore
     \<lparr>browserHostUrl = lit ''http://bs-local.com:5757/'',
      browserStack = \<lparr>enabled = JBool True, user = JStr (lit ''user''),
                      key = JStr (lit ''key''), localEnabled = True\<rparr>\<rparr>
     \<lparr>start_error = Some (Foreign (lit ''could not connect'')), isRunning = False,
      stop_error = None\<rparr>
     False =
   (True,
    [LogSettingUpLocal, NewLocal, LocalStart (JStr (lit ''key'')) (lit ''true''),
     ErrorStartingLocal (Foreign (lit ''could not connect''))],
    Inl (Foreign (lit ''could not connect'')))"
  by (simp add: rootBefore_def)

text \<open>
  Claim C3.  Let \<open>initializeConfig\<close> return a configuration.  With cloud mode enabled
  the resolved host url was parsed; if its hostname is \<open>localhost\<close> or \<open>127.0.0.1\<close>,
  the local-tunnel flag is set and the host url is \<open>url.format\<close> of the parsed url with
  \<open>hostname\<close> replaced by \<open>bs-local.com\<close>, \<open>host\<close> cleared and every other component
  as parsed; for any other hostname, and whenever cloud mode is disabled, the flag is
  false and the host url is the resolved one.
\<close>

theorem local_host_rewrite:
  assumes "snd (initializeConfig node) = Inr cfg"
  shows "(truthy (enabled (browserStack cfg)) \<longrightarrow>
            (\<exists>p. url_parse node (resolvedHost node) = Inr p
               \<and> (isLocalHost p \<longrightarrow>
                    localEnabled (browserStack cfg)
                    \<and> (\<exists>q. browserHostUrl cfg = url_format node q
                          \<and> q = p\<lparr>hostname := Some BS_LOCAL, host := None\<rparr>
                          \<and> hostname q = Some BS_LOCAL \<and> host q = None
                          \<and> protocol q = protocol p \<and> slashes q = slashes p \<and> auth q = auth p
                          \<and> port q = port p \<and> pathname q = pathname p \<and> search q = search p
                          \<and> query q = query p \<and> hash q = hash p \<and> path q = path p
                          \<and> href q = href p))
               \<and> (\<not> isLocalHost p \<longrightarrow>
                    \<not> localEnabled (browserStack cfg) \<and> browserHostUrl cfg = resolvedHost node)))
       \<and> (\<not> truthy (enabled (browserStack cfg)) \<longrightarrow>
            \<not> localEnabled (browserStack cfg) \<and> browserHostUrl cfg = resolvedHost node)"
proof (cases rule: init_cases [of node])
  case disabled
  with assms show ?thesis by (auto simp: init_disabled)
next
  case auth_missing
  with assms show ?thesis by (simp add: init_auth_missing)
next
  case (parse_fails e)
  with assms show ?thesis by (simp add: init_parse_fails)
next
  case (remote p)
  with assms have "cfg = \<lparr>browserHostUrl = resolvedHost node,
           browserStack = \<lparr>enabled = browserStackEnabled (process_env node),
             user = fst (credentials (toString (env_get (process_env node) BROWSERSTACK_AUTH))),
             key = snd (credentials (toString (env_get (process_env node) BROWSERSTACK_AUTH))),
             localEnabled = False\<rparr>\<rparr>"
    by (simp add: init_remote)
  with remote show ?thesis by simp
next
  case (local p)
  with assms have c: "cfg = \<lparr>browserHostUrl = url_format node (p\<lparr>hostname := Some BS_LOCAL, host := None\<rparr>),
           browserStack = \<lparr>enabled = browserStackEnabled (process_env node),
             user = fst (credentials (toString (env_get (process_env node) BROWSERSTACK_AUTH))),
             key = snd (credentials (toString (env_get (process_env node) BROWSERSTACK_AUTH))),
             localEnabled = True\<rparr>\<rparr>"
    by (simp add: init_local)
  have "\<exists>q. browserHostUrl cfg = url_format node q
                          \<and> hostname q = Some BS_LOCAL \<and> host q = None
                          \<and> protocol q = protocol p \<and> slashes q = slashes p \<and> auth q = auth p
                          \<and> port q = port p \<and> pathname q = pathname p \<and> search q = search p
                          \<and> query q = query p \<and> hash q = hash p \<and> path q = path p
                          \<and> href q = href p"
    by (rule exI [of _ "p\<lparr>hostname := Some BS_LOCAL, host := None\<rparr>"]) (simp add: c)
  with local c show ?thesis by simp
qed

text \<open>
  C3 on the concrete runtime: \<open>http://localhost:5757\<close> becomes
  \<open>http://bs-local.com:5757/\<close>.
\<close>

theorem local_host_rewrite_witness:
  "localEnabled (browserStack
      \<lparr>browserHostUrl = lit ''http://bs-local.com:5757/'',
       browserStack = \<lparr>enabled = JBool True, user = JStr (lit ''user''),
                       key = JStr (lit ''key''), localEnabled = True\<rparr>\<rparr>)
   \<and> (\<exists>q. lit ''http://bs-local.com:5757/'' = exampleFormat q
          \<and> hostname q = Some BS_LOCAL \<and> port q = Some (lit ''5757''))"
proof -
  let ?node = "exampleNode (cloudEnv (lit ''http://localhost:5757'') (lit ''user:key''))"
  let ?cfg = "\<lparr>browserHostUrl = lit ''http://bs-local.com:5757/'',
       browserStack = \<lparr>enabled = JBool True, user = JStr (lit ''user''),
                       key = JStr (lit ''key''), localEnabled = True\<rparr>\<rparr>"
  have run: "snd (initializeConfig ?node) = Inr ?cfg"
    by (simp add: example_init_local)
  have en: "truthy (enabled (browserStack ?cfg))" by simp
  have host: "resolvedHost ?node = lit ''http://localhost:5757''"
    by (simp add: resolvedHost_def js_or_def env_get_def example_defs)
  obtain p where p: "url_parse ?node (resolvedHost ?node) = Inr p"
    and loc: "isLocalHost p \<longrightarrow>
                    localEnabled (browserStack ?cfg)
                    \<and> (\<exists>q. browserHostUrl ?cfg = url_format ?node q
                          \<and> q = p\<lparr>hostname := Some BS_LOCAL, host := None\<rparr>
                          \<and> hostname q = Some BS_LOCAL \<and> host q = None
                          \<and> protocol q = protocol p \<and> slashes q = slashes p \<and> auth q = auth p
                          \<and> port q = port p \<and> pathname q = pathname p \<and> search q = search p
                          \<and> query q = query p \<and> hash q = hash p \<and> path q = path p
                          \<and> href q = href p)"
    using local_host_rewrite [OF run] en by blast
  have pl: "isLocalHost p \<and> port p = Some (lit ''5757'')"
    using p unfolding host by (auto simp: example_defs isLocalHost_def)
  have fmt: "url_format ?node = exampleFormat" by (simp add: exampleNode_def)
  from loc pl fmt show ?thesis by auto
qed

text \<open>
  Claim C4, amended.  If \<open>initializeConfig\<close> returns a configuration with cloud mode
  enabled, then \<open>BROWSERSTACK_AUTH\<close> is set and not empty and the user credential is a
  string.  Both credentials are non-empty strings exactly when the trimmed
  \<open>BROWSERSTACK_AUTH\<close> has a colon followed by a code unit other than a line terminator
  and does not begin with such a colon; without such a colon the key is \<open>undefined\<close>.
\<close>

theorem credentials_after_init:
  assumes "snd (initializeConfig node) = Inr cfg" and "truthy (enabled (browserStack cfg))"
  shows "\<exists>a. process_env node BROWSERSTACK_AUTH = Some a \<and> a \<noteq> []
           \<and> (\<exists>u. user (browserStack cfg) = JStr u)
           \<and> ((\<exists>u k. user (browserStack cfg) = JStr u \<and> u \<noteq> []
                    \<and> key (browserStack cfg) = JStr k \<and> k \<noteq> [])
                \<longleftrightarrow> (\<exists>i. matchesAt (trim a) i) \<and> \<not> matchesAt (trim a) 0)
           \<and> ((\<forall>i. \<not> matchesAt (trim a) i) \<longrightarrow> key (browserStack cfg) = JUndefined)"
proof -
  obtain a where a: "process_env node BROWSERSTACK_AUTH = Some a" "a \<noteq> []"
    and c: "(user (browserStack cfg), key (browserStack cfg)) = credentials a"
    using init_credentials [OF assms] by blast
  have "(\<exists>u. user (browserStack cfg) = JStr u)
           \<and> ((\<exists>u k. user (browserStack cfg) = JStr u \<and> u \<noteq> []
                    \<and> key (browserStack cfg) = JStr k \<and> k \<noteq> [])
                \<longleftrightarrow> (\<exists>i. matchesAt (trim a) i) \<and> \<not> matchesAt (trim a) 0)
           \<and> ((\<forall>i. \<not> matchesAt (trim a) i) \<longrightarrow> key (browserStack cfg) = JUndefined)"
  proof (cases a rule: credentials_cases)
    case none
    then have "\<And>j. \<not> matchesAt (trim a) j" by (auto simp: matchesAt_def)
    with none(1) c show ?thesis by auto
  next
    case (first i)
    have il: "i < length (trim a)" using first(2) by (simp add: matchesAt_def)
    have "take i (trim a) \<noteq> [] \<longleftrightarrow> \<not> matchesAt (trim a) 0"
    proof (cases i)
      case 0
      with first(2) show ?thesis by simp
    next
      case (Suc n)
      then have "\<not> matchesAt (trim a) 0" using first(3) by simp
      with Suc il show ?thesis by auto
    qed
    with first c capture_nonempty [OF first(2)] show ?thesis by auto
  qed
  with a show ?thesis by blast
qed

text \<open>
  C4 on the concrete runtime, with the credentials \<open>user:key\<close>.
\<close>

theorem credentials_after_init_witness:
  "\<exists>a. cloudEnv (lit ''http://localhost:5757'') (lit ''user:key'') BROWSERSTACK_AUTH = Some a
      \<and> a \<noteq> [] \<and> matchesAt (trim a) 4 \<and> \<not> matchesAt (trim a) 0"
proof -
  let ?node = "exampleNode (cloudEnv (lit ''http://localhost:5757'') (lit ''user:key''))"
  let ?cfg = "\<lparr>browserHostUrl = lit ''http://bs-local.com:5757/'',
       browserStack = \<lparr>enabled = JBool True, user = JStr (lit ''user''),
                       key = JStr (lit ''key''), localEnabled = True\<rparr>\<rparr>"
  have run: "snd (initializeConfig ?node) = Inr ?cfg"
    by (simp add: example_init_local)
  have en: "truthy (enabled (browserStack ?cfg))" by simp
  have both: "\<exists>u k. user (browserStack ?cfg) = JStr u \<and> u \<noteq> []
                    \<and> key (browserStack ?cfg) = JStr k \<and> k \<noteq> []"
    by (simp add: lit_def)
  have env: "process_env ?node = cloudEnv (lit ''http://localhost:5757'') (lit ''user:key'')"
    by (simp add: exampleNode_def)
  obtain a where a: "process_env ?node BROWSERSTACK_AUTH = Some a" "a \<noteq> []"
    and "(\<exists>i. matchesAt (trim a) i) \<and> \<not> matchesAt (trim a) 0"
    using credentials_after_init [OF run en] both by blast
  moreover from a(1) have "a = lit ''user:key''"
    unfolding env by (simp add: example_defs)
  moreover have "matchesAt (trim (lit ''user:key'')) 4"
    by (simp add: split_eval)
  ultimately show ?thesis unfolding env by blast
qed

text \<open>
  C4 as stated fails: \<open>BROWSERSTACK_AUTH=useronly\<close> passes the startup check, and the
  key is \<open>undefined\<close> while cloud mode is enabled.
\<close>

theorem credentials_after_init_counterexample:
  "snd (initializeConfig
          (exampleNode (cloudEnv (lit ''https://browser.blockstack.org'') (lit ''useronly'')))) =
     Inr \<lparr>browserHostUrl = lit ''https://browser.blockstack.org'',
          browserStack = \<lparr>enabled = JBool True, user = JStr (lit ''useronly''),
                          key = JUndefined, localEnabled = False\<rparr>\<rparr>"
  by (simp add: example_init_useronly)

text \<open>
  Claim C5.  In one test process the actions of the root \<open>before\<close> hook come first,
  then those of the suites, then those of the root \<open>after\<close> hook.  A tunnel daemon is
  created once if the local-tunnel flag is set and never otherwise, and only in the
  \<open>before\<close> hook; \<open>start\<close> is called once there, with the key, if the flag is set and
  never otherwise; \<open>stop\<close> is called only in the \<open>after\<close> hook, once if a daemon was
  created and \<open>isRunning()\<close> holds, and never otherwise.
\<close>

theorem single_tunnel:
  "(\<exists>pre post. processRun c t suites =
        map Root pre
        @ (if localEnabled (browserStack c) \<and> start_error t \<noteq> None then [] else map Suite suites)
        @ map Root post
      \<and> length (filter (\<lambda>a. a = NewLocal) pre) = (if localEnabled (browserStack c) then 1 else 0)
      \<and> filter (\<lambda>a. case a of LocalStart k f \<Rightarrow> True | _ \<Rightarrow> False) pre =
          (if localEnabled (browserStack c)
           then [LocalStart (key (browserStack c)) (lit ''true'')] else [])
      \<and> LocalStop \<notin> set pre
      \<and> NewLocal \<notin> set post
      \<and> filter (\<lambda>a. case a of LocalStart k f \<Rightarrow> True | _ \<Rightarrow> False) post = []
      \<and> length (filter (\<lambda>a. a = LocalStop) post) =
          (if localEnabled (browserStack c) \<and> isRunning t then 1 else 0))"
proof -
  let ?pre = "fst (snd (rootBefore c t False))"
  let ?post = "fst (rootAfter t (localEnabled (browserStack c)))"
  have "length (filter (\<lambda>a. a = NewLocal) ?pre) = (if localEnabled (browserStack c) then 1 else 0)"
    by (simp add: rootBefore_def split: option.splits)
  moreover have "filter (\<lambda>a. case a of LocalStart k f \<Rightarrow> True | _ \<Rightarrow> False) ?pre =
          (if localEnabled (browserStack c)
           then [LocalStart (key (browserStack c)) (lit ''true'')] else [])"
    by (simp add: rootBefore_def split: option.splits)
  moreover have "LocalStop \<notin> set ?pre"
    by (simp add: rootBefore_def split: option.splits)
  moreover have "NewLocal \<notin> set ?post"
    by (simp add: rootAfter_def split: option.splits)
  moreover have "filter (\<lambda>a. case a of LocalStart k f \<Rightarrow> True | _ \<Rightarrow> False) ?post = []"
    by (simp add: rootAfter_def split: option.splits)
  moreover have "length (filter (\<lambda>a. a = LocalStop) ?post) =
          (if localEnabled (browserStack c) \<and> isRunning t then 1 else 0)"
    by (simp add: rootAfter_def split: option.splits)
  ultimately show ?thesis
    using processRun_shape [of c t suites] by blast
qed

text \<open>
  C5 on a run of two suites with the local tunnel.
\<close>

theorem single_tunnel_witness:
  "\<exists>pre post. processRun exampleLocalConfig healthyTunnel [1::nat, 2] =
        map Root pre @ map Suite [1, 2] @ map Root post
      \<and> length (filter (\<lambda>a. a = NewLocal) pre) = 1
      \<and> LocalStop \<notin> set pre \<and> NewLocal \<notin> set post
      \<and> length (filter (\<lambda>a. a = LocalStop) post) = 1"
proof -
  have l: "localEnabled (browserStack exampleLocalConfig)"
    by (simp add: exampleLocalConfig_def)
  have s: "start_error healthyTunnel = None" "isRunning healthyTunnel"
    by (simp_all add: healthyTunnel_def)
  from single_tunnel [of exampleLocalConfig healthyTunnel "[1::nat, 2]"]
  show ?thesis using l s by auto
qed

text \<open>
  Claim C6, amended.  A test that did not fail, or whose driver has no \<open>screenshot\<close>,
  leaves \<open>afterEach\<close> without any action.  For a failed test whose driver has it, the
  hook creates the directory \<open>selenium-errors\<close> under the temporary directory if it is
  absent.  If that creation throws, the error is logged and no screenshot is taken.
  Otherwise, at every time of the clock, the hook asks the driver for a screenshot in
  that directory, in the file \<open>screenshot-S-R.png\<close>, and logs the outcome.  Here \<open>R\<close> is
  what \<open>helpers.getRandomString(6)\<close> returned, 6 characters long for a helper that
  returns as many characters as it is asked for, and \<open>S\<close> is the Unix timestamp in
  seconds while the clock is between 1970 and 2038-01-19T03:14:08Z.
\<close>

theorem screenshot_on_failure:
  "(state \<noteq> JStr (lit ''failed'') \<or> screenshot d = None \<longrightarrow>
      suiteAfterEach node g state d = ([], Inr ()))
   \<and> (state = JStr (lit ''failed'') \<and> screenshot d = Some shoot
        \<and> \<not> fs_existsSync node (errDirOf node) \<and> fs_mkdirSync node (errDirOf node) = Some e \<longrightarrow>
        suiteAfterEach node g state d = ([MkdirSync (errDirOf node), WarnScreenshot e], Inr ()))
   \<and> (state = JStr (lit ''failed'') \<and> screenshot d = Some shoot
        \<and> (fs_existsSync node (errDirOf node) \<or> fs_mkdirSync node (errDirOf node) = None) \<longrightarrow>
        suiteAfterEach node g state d =
          ((if fs_existsSync node (errDirOf node) then [] else [MkdirSync (errDirOf node)])
           @ [Screenshot (path_resolve node (errDirOf node) (screenshotName (Date_now node) (g 6)))]
           @ (case shoot (path_resolve node (errDirOf node) (screenshotName (Date_now node) (g 6))) of
                Resolves \<Rightarrow>
                  [LogScreenshotSaved
                     (path_resolve node (errDirOf node) (screenshotName (Date_now node) (g 6)))]
              | Throws x \<Rightarrow> [WarnScreenshot x]
              | Rejects x \<Rightarrow> [WarnScreenshot x]),
           Inr ()))
   \<and> (\<exists>S. screenshotName (Date_now node) (g 6) =
              lit ''screenshot-'' @ S @ lit ''-'' @ g 6 @ lit ''.png''
          \<and> (0 \<le> Date_now node \<and> Date_now node < 2 ^ 31 * 1000 \<longrightarrow>
               S = show_nat (nat (Date_now node div 1000))))
   \<and> (returnsRequestedLength g \<longrightarrow> length (g 6) = 6)"
proof (intro conjI impI)
  assume "state \<noteq> JStr (lit ''failed'') \<or> screenshot d = None"
  then show "suiteAfterEach node g state d = ([], Inr ())"
    by (auto simp: hook_defs)
next
  assume "state = JStr (lit ''failed'') \<and> screenshot d = Some shoot
        \<and> \<not> fs_existsSync node (errDirOf node) \<and> fs_mkdirSync node (errDirOf node) = Some e"
  then show "suiteAfterEach node g state d = ([MkdirSync (errDirOf node), WarnScreenshot e], Inr ())"
    by (simp add: hook_defs errDirOf_def)
next
  let ?f = "path_resolve node (errDirOf node) (screenshotName (Date_now node) (g 6))"
  assume h: "state = JStr (lit ''failed'') \<and> screenshot d = Some shoot
        \<and> (fs_existsSync node (errDirOf node) \<or> fs_mkdirSync node (errDirOf node) = None)"
  show "suiteAfterEach node g state d =
          ((if fs_existsSync node (errDirOf node) then [] else [MkdirSync (errDirOf node)])
           @ [Screenshot ?f]
           @ (case shoot ?f of
                Resolves \<Rightarrow> [LogScreenshotSaved ?f]
              | Throws x \<Rightarrow> [WarnScreenshot x]
              | Rejects x \<Rightarrow> [WarnScreenshot x]),
           Inr ())"
    using h by (cases "shoot ?f") (auto simp: hook_defs errDirOf_def [symmetric])
next
  show "\<exists>S. screenshotName (Date_now node) (g 6) =
              lit ''screenshot-'' @ S @ lit ''-'' @ g 6 @ lit ''.png''
          \<and> (0 \<le> Date_now node \<and> Date_now node < 2 ^ 31 * 1000 \<longrightarrow>
               S = show_nat (nat (Date_now node div 1000)))"
    by (rule exI [of _ "numberToString (toInt32 (truncate_div (Date_now node) 1000))"])
       (simp add: screenshotName_def seconds_in_range)
next
  assume "returnsRequestedLength g"
  then show "length (g 6) = 6" by (simp add: returnsRequestedLength_def)
qed

text \<open>
  C6 on the concrete runtime: a failed test at 2019-11-03T00:00:00Z, and a passed one.
\<close>

theorem screenshot_on_failure_witness:
  "suiteAfterEach (exampleNode Map.empty) exampleRandom (JStr (lit ''failed''))
      \<lparr>screenshot = Some resolvingShoot, quit = None\<rparr> =
     ([MkdirSync (lit ''/tmp/selenium-errors''),
       Screenshot (lit ''/tmp/selenium-errors/screenshot-1572739200-abcdef.png''),
       LogScreenshotSaved (lit ''/tmp/selenium-errors/screenshot-1572739200-abcdef.png'')],
      Inr ())
   \<and> suiteAfterEach (exampleNode Map.empty) exampleRandom (JStr (lit ''passed''))
      \<lparr>screenshot = Some resolvingShoot, quit = None\<rparr> = ([], Inr ())
   \<and> screenshotName (Date_now (exampleNode Map.empty)) (exampleRandom 6) =
       lit ''screenshot-'' @ show_nat 1572739200 @ lit ''-'' @ lit ''abcdef'' @ lit ''.png''
   \<and> length (exampleRandom 6) = 6"
proof -
  let ?node = "exampleNode Map.empty"
  let ?d = "\<lparr>screenshot = Some resolvingShoot, quit = None\<rparr>"
  let ?f = "path_resolve ?node (errDirOf ?node) (screenshotName (Date_now ?node) (exampleRandom 6))"
  note sf = screenshot_on_failure [of _ ?d ?node exampleRandom resolvingShoot]
  have dir: "errDirOf ?node = lit ''/tmp/selenium-errors''"
    by (simp add: errDirOf_def exampleNode_def lit_def)
  have range: "0 \<le> Date_now ?node \<and> Date_now ?node < 2 ^ 31 * 1000"
    by (simp add: exampleNode_def)
  have secs: "nat (Date_now ?node div 1000) = 1572739200"
    by (simp add: exampleNode_def)
  have h: "JStr (lit ''failed'') = JStr (lit ''failed'') \<and> screenshot ?d = Some resolvingShoot
        \<and> (fs_existsSync ?node (errDirOf ?node) \<or> fs_mkdirSync ?node (errDirOf ?node) = None)"
    by (simp add: exampleNode_def)
  have nex: "\<not> fs_existsSync ?node (errDirOf ?node)"
    by (simp add: exampleNode_def)
  have p: "JStr (lit ''passed'') \<noteq> JStr (lit ''failed'') \<or> screenshot ?d = None"
    by (simp add: lit_def)
  obtain S where S: "screenshotName (Date_now ?node) (exampleRandom 6) =
              lit ''screenshot-'' @ S @ lit ''-'' @ exampleRandom 6 @ lit ''.png''"
      and "0 \<le> Date_now ?node \<and> Date_now ?node < 2 ^ 31 * 1000 \<longrightarrow>
               S = show_nat (nat (Date_now ?node div 1000))"
    using sf by blast
  with range secs have "S = show_nat 1572739200" by simp
  with S have c: "screenshotName (Date_now ?node) (exampleRandom 6) =
       lit ''screenshot-'' @ show_nat 1572739200 @ lit ''-'' @ lit ''abcdef'' @ lit ''.png''"
    by (simp add: exampleRandom_6)
  have digits: "show_nat 1572739200 = lit ''1572739200''"
    by (simp add: show_nat.simps lit_def)
  have fq: "?f = lit ''/tmp/selenium-errors/screenshot-1572739200-abcdef.png''"
    unfolding c digits dir by (simp add: exampleNode_def lit_def)
  have "suiteAfterEach ?node exampleRandom (JStr (lit ''failed'')) ?d =
          ((if fs_existsSync ?node (errDirOf ?node) then [] else [MkdirSync (errDirOf ?node)])
           @ [Screenshot ?f]
           @ (case resolvingShoot ?f of
                Resolves \<Rightarrow> [LogScreenshotSaved ?f]
              | Throws x \<Rightarrow> [WarnScreenshot x]
              | Rejects x \<Rightarrow> [WarnScreenshot x]),
           Inr ())"
    using sf [of "JStr (lit ''failed'')"] h by blast
  then have a: "suiteAfterEach ?node exampleRandom (JStr (lit ''failed'')) ?d =
     ([MkdirSync (lit ''/tmp/selenium-errors''),
       Screenshot (lit ''/tmp/selenium-errors/screenshot-1572739200-abcdef.png''),
       LogScreenshotSaved (lit ''/tmp/selenium-errors/screenshot-1572739200-abcdef.png'')],
      Inr ())"
    unfolding fq using nex by (simp add: resolvingShoot_def dir)
  have b: "suiteAfterEach ?node exampleRandom (JStr (lit ''passed'')) ?d = ([], Inr ())"
    using sf [of "JStr (lit ''passed'')"] p by blast
  have l: "length (exampleRandom 6) = 6"
    using sf exampleRandom_length by blast
  from a b c l show ?thesis by blast
qed

text \<open>
  C6 as stated fails: when the directory cannot be created, a failed test gets no
  screenshot; and from 2038-01-19T03:14:08Z on the number in the file name is negative.
\<close>

theorem screenshot_on_failure_counterexample:
  "suiteAfterEach readOnlyTmp exampleRandom (JStr (lit ''failed''))
      \<lparr>screenshot = Some resolvingShoot, quit = None\<rparr> =
     ([MkdirSync (lit ''/tmp/selenium-errors''), WarnScreenshot (Foreign (lit ''EACCES''))], Inr ())
   \<and> screenshotName 2147483648000 (lit ''abcdef'') = lit ''screenshot--2147483648-abcdef.png''"
  by (simp add: hook_defs readOnlyTmp_def exampleNode_def screenshotName_def numberToString_def
        toInt32_def truncate_div_def show_nat.simps lit_def)

text \<open>
  Claim C7.  \<open>createTestSuites\<close> takes the environments of the cloud grid if the
  cloud-enabled flag is truthy and those of the local browsers otherwise.  It registers
  as many suites as there are environments; the suite of an environment has the title
  \<open>title [description]\<close> and registers, in this order, the setup step that creates the
  driver of that environment, one call of \<open>defineTests\<close> with the description of that
  environment and the host url, the \<open>afterEach\<close> hook and the \<open>after\<close> hook.
\<close>

theorem createTestSuites_registers:
  "(truthy (enabled (browserStack c)) \<longrightarrow>
      testEnvironments c node table =
        getBrowserstackEnvironments c table (user (browserStack c)) (key (browserStack c)))
   \<and> (\<not> truthy (enabled (browserStack c)) \<longrightarrow>
        testEnvironments c node table = getLocalSystemBrowserEnvironments node)
   \<and> length (createTestSuites c node table title) = length (testEnvironments c node table)
   \<and> (\<forall>i < length (testEnvironments c node table).
        createTestSuites c node table title ! i =
          Describe (title @ lit '' ['' @ toString (description (testEnvironments c node table ! i))
                    @ lit '']'')
            [Step (lit ''create selenium webdriver'')
               (createDriver (testEnvironments c node table ! i)) 120000,
             DefineTests \<lparr>envDesc = description (testEnvironments c node table ! i),
                          inputsBrowserHostUrl = browserHostUrl c,
                          inputsDriver = emptyDriver\<rparr>,
             AfterEach, After])"
  by (simp add: createTestSuites_def registerSuites_length registerSuites_nth testEnvironments_def)

text \<open>
  C7 on the concrete runtime, with the local browsers of a Linux machine.
\<close>

theorem createTestSuites_registers_witness:
  "createTestSuites exampleLocalSystemConfig (exampleNode Map.empty) [] (lit ''Auth'') ! 0 =
     Describe (lit ''Auth [linux firefox]'')
       [Step (lit ''create selenium webdriver'') (ForBrowser (lit ''firefox'')) 120000,
        DefineTests \<lparr>envDesc = JStr (lit ''linux firefox''),
                     inputsBrowserHostUrl = lit ''https://browser.blockstack.org'',
                     inputsDriver = emptyDriver\<rparr>,
        AfterEach, After]
   \<and> length (createTestSuites exampleLocalSystemConfig (exampleNode Map.empty) [] (lit ''Auth'')) = 2"
proof -
  let ?c = exampleLocalSystemConfig
  let ?node = "exampleNode Map.empty"
  have dis: "\<not> truthy (enabled (browserStack ?c))"
    by (simp add: exampleLocalSystemConfig_def)
  note reg = createTestSuites_registers [of ?c ?node "[]" "lit ''Auth''"]
  have envs: "testEnvironments ?c ?node [] =
     [\<lparr>description = JStr (lit ''linux firefox''), createDriver = ForBrowser (lit ''firefox'')\<rparr>,
      \<lparr>description = JStr (lit ''linux chrome''), createDriver = ForBrowser (lit ''chrome'')\<rparr>]"
    using reg dis by (simp add: local_linux)
  have len: "length (createTestSuites ?c ?node [] (lit ''Auth'')) = 2"
    using reg envs by simp
  have "0 < length (testEnvironments ?c ?node [])" using envs by simp
  then have "createTestSuites ?c ?node [] (lit ''Auth'') ! 0 =
          Describe (lit ''Auth'' @ lit '' ['' @ toString (description (testEnvironments ?c ?node [] ! 0))
                    @ lit '']'')
            [Step (lit ''create selenium webdriver'')
               (createDriver (testEnvironments ?c ?node [] ! 0)) 120000,
             DefineTests \<lparr>envDesc = description (testEnvironments ?c ?node [] ! 0),
                          inputsBrowserHostUrl = browserHostUrl ?c,
                          inputsDriver = emptyDriver\<rparr>,
             AfterEach, After]"
    using reg by blast
  then show ?thesis
    using len unfolding envs by (simp add: exampleLocalSystemConfig_def lit_def)
qed

text \<open>
  Claim C8.  \<open>initializeConfig\<close> warns about the port if and only if it returns a
  configuration with the local-tunnel flag set and the port of the parsed host url is
  not \<open>5757\<close>; the warning names that port.  A url without a port triggers it too.
  The port check returns the configuration it was given.
\<close>

theorem port_warning:
  "((\<exists>x. WarnPort x \<in> set (fst (initializeConfig node))) \<longleftrightarrow>
      (\<exists>cfg p. snd (initializeConfig node) = Inr cfg \<and> localEnabled (browserStack cfg)
         \<and> url_parse node (resolvedHost node) = Inr p \<and> port p \<noteq> Some expectedPort))
   \<and> (WarnPort x \<in> set (fst (initializeConfig node)) \<longrightarrow>
        url_parse node (resolvedHost node) = Inr p \<longrightarrow> x = port p)
   \<and> (localEnabled (browserStack c) \<longrightarrow> port parsedUrl = None \<longrightarrow>
        fst (checkPort c parsedUrl) = [WarnPort None])
   \<and> snd (checkPort c parsedUrl) = Inr c"
proof (intro conjI)
  show "snd (checkPort c parsedUrl) = Inr c"
    by (simp add: checkPort_def)
  show "localEnabled (browserStack c) \<longrightarrow> port parsedUrl = None \<longrightarrow>
        fst (checkPort c parsedUrl) = [WarnPort None]"
    by (simp add: checkPort_def)
  show "(\<exists>x. WarnPort x \<in> set (fst (initializeConfig node))) \<longleftrightarrow>
      (\<exists>cfg p. snd (initializeConfig node) = Inr cfg \<and> localEnabled (browserStack cfg)
         \<and> url_parse node (resolvedHost node) = Inr p \<and> port p \<noteq> Some expectedPort)"
  proof (cases rule: init_cases [of node])
    case disabled
    then show ?thesis by (simp add: init_disabled hostEvents_def)
  next
    case auth_missing
    then show ?thesis by (simp add: init_auth_missing hostEvents_def)
  next
    case (parse_fails e)
    then show ?thesis by (simp add: init_parse_fails hostEvents_def)
  next
    case (remote p)
    then show ?thesis by (simp add: init_remote hostEvents_def)
  next
    case (local p)
    then show ?thesis by (simp add: init_local hostEvents_def)
  qed
  show "WarnPort x \<in> set (fst (initializeConfig node)) \<longrightarrow>
        url_parse node (resolvedHost node) = Inr p \<longrightarrow> x = port p"
  proof (cases rule: init_cases [of node])
    case disabled
    then show ?thesis by (simp add: init_disabled hostEvents_def)
  next
    case auth_missing
    then show ?thesis by (simp add: init_auth_missing hostEvents_def)
  next
    case (parse_fails e)
    then show ?thesis by (simp add: init_parse_fails hostEvents_def)
  next
    case (remote p')
    then show ?thesis by (simp add: init_remote hostEvents_def)
  next
    case (local p')
    then show ?thesis by (auto simp add: init_local hostEvents_def split: if_splits)
  qed
qed

text \<open>
  C8 on the concrete runtime: \<open>http://localhost\<close> has no port, and the warning is there.
\<close>

theorem port_warning_witness:
  "WarnPort None \<in> set (fst (initializeConfig
      (exampleNode (cloudEnv (lit ''http://localhost'') (lit ''user:key'')))))
   \<and> (\<exists>cfg p. snd (initializeConfig
          (exampleNode (cloudEnv (lit ''http://localhost'') (lit ''user:key'')))) = Inr cfg
        \<and> localEnabled (browserStack cfg)
        \<and> exampleParse (lit ''http://localhost'') = Inr p \<and> port p \<noteq> Some expectedPort)"
proof -
  let ?node = "exampleNode (cloudEnv (lit ''http://localhost'') (lit ''user:key''))"
  have w: "WarnPort None \<in> set (fst (initializeConfig ?node))"
    by (simp add: example_init_noport)
  have host: "resolvedHost ?node = lit ''http://localhost''"
    by (simp add: resolvedHost_def js_or_def env_get_def example_defs)
  have parse: "url_parse ?node = exampleParse" by (simp add: exampleNode_def)
  from w have "\<exists>x. WarnPort x \<in> set (fst (initializeConfig ?node))" by blast
  then have "\<exists>cfg p. snd (initializeConfig ?node) = Inr cfg \<and> localEnabled (browserStack cfg)
         \<and> url_parse ?node (resolvedHost ?node) = Inr p \<and> port p \<noteq> Some expectedPort"
    using port_warning [of node for node] by blast
  with w show ?thesis unfolding host parse by simp
qed

text \<open>
  Claim C9.  The cloud-enabled flag is \<open>true\<close> if and only if \<open>USE_BROWSERSTACK\<close> is
  set to a string that is neither empty nor \<open>false\<close>; it is truthy only when it is
  \<open>true\<close>; and it is the flag of the configuration that \<open>initializeConfig\<close> returns.
\<close>

theorem cloud_enabled_flag:
  "(browserStackEnabled env = JBool True \<longleftrightarrow>
      (\<exists>v. env USE_BROWSERSTACK = Some v \<and> v \<noteq> [] \<and> v \<noteq> lit ''false''))
   \<and> (truthy (browserStackEnabled env) \<longleftrightarrow> browserStackEnabled env = JBool True)
   \<and> (process_env node = env \<longrightarrow> snd (initializeConfig node) = Inr cfg \<longrightarrow>
        enabled (browserStack cfg) = browserStackEnabled env)"
proof (intro conjI impI)
  show t: "truthy (browserStackEnabled env) \<longleftrightarrow> browserStackEnabled env = JBool True"
    using enabled_truthy_True [of env] by auto
  show "browserStackEnabled env = JBool True \<longleftrightarrow>
      (\<exists>v. env USE_BROWSERSTACK = Some v \<and> v \<noteq> [] \<and> v \<noteq> lit ''false'')"
    using t enabled_truthy_iff [of env] by simp
next
  assume "process_env node = env" "snd (initializeConfig node) = Inr cfg"
  then show "enabled (browserStack cfg) = browserStackEnabled env"
    using init_enabled by blast
qed

text \<open>
  C9 on the values \<open>False\<close>, \<open>false\<close> and \<open>true\<close> of the variable.
\<close>

theorem cloud_enabled_flag_witness:
  "browserStackEnabled [USE_BROWSERSTACK \<mapsto> lit ''False''] = JBool True
   \<and> browserStackEnabled [USE_BROWSERSTACK \<mapsto> lit ''false''] \<noteq> JBool True
   \<and> enabled (browserStack exampleLocalConfig) =
       browserStackEnabled (cloudEnv (lit ''http://localhost:5757'') (lit ''user:key''))"
proof -
  let ?node = "exampleNode (cloudEnv (lit ''http://localhost:5757'') (lit ''user:key''))"
  have a: "\<exists>v. [USE_BROWSERSTACK \<mapsto> lit ''False''] USE_BROWSERSTACK = Some v \<and> v \<noteq> []
             \<and> v \<noteq> lit ''false''"
    by (simp add: lit_def)
  have b: "\<not> (\<exists>v. [USE_BROWSERSTACK \<mapsto> lit ''false''] USE_BROWSERSTACK = Some v \<and> v \<noteq> []
             \<and> v \<noteq> lit ''false'')"
    by simp
  have env: "process_env ?node = cloudEnv (lit ''http://localhost:5757'') (lit ''user:key'')"
    by (simp add: exampleNode_def)
  have run: "snd (initializeConfig ?node) = Inr exampleLocalConfig"
    by (simp add: example_init_local exampleLocalConfig_def)
  from a cloud_enabled_flag [of "[USE_BROWSERSTACK \<mapsto> lit ''False'']"]
  have 1: "browserStackEnabled [USE_BROWSERSTACK \<mapsto> lit ''False''] = JBool True" by blast
  from b cloud_enabled_flag [of "[USE_BROWSERSTACK \<mapsto> lit ''false'']"]
  have 2: "browserStackEnabled [USE_BROWSERSTACK \<mapsto> lit ''false''] \<noteq> JBool True" by blast
  from env run cloud_enabled_flag [of _ ?node exampleLocalConfig]
  have 3: "enabled (browserStack exampleLocalConfig) =
       browserStackEnabled (cloudEnv (lit ''http://localhost:5757'') (lit ''user:key''))" by blast
  from 1 2 3 show ?thesis by blast
qed

text \<open>
  Claim C10, amended.  The trimmed credentials are split at the first colon that a code
  unit other than a line terminator follows: the user is the text before that colon and
  the key is the text after it, up to the next line terminator.  So a string of the form
  \<open>user:key\<close>, with no colon in the user and a non-empty key without line terminators,
  gives that user and that key, colons of the key included.  If no colon is followed in
  that way, and in particular if there is no colon, the user is the whole string and the
  key is \<open>undefined\<close>.
\<close>

theorem credentials_split:
  "(colon \<notin> set (trim a) \<longrightarrow> credentials a = (JStr (trim a), JUndefined))
   \<and> (trim a = u @ colon # k \<and> colon \<notin> set u \<and> k \<noteq> [] \<and> (\<forall>c \<in> set k. \<not> isLineTerminator c) \<longrightarrow>
        credentials a = (JStr u, JStr k))
   \<and> (matchesAt (trim a) i \<and> (\<forall>j<i. \<not> matchesAt (trim a) j) \<longrightarrow>
        credentials a = (JStr (take i (trim a)), JStr (capture (trim a) i)))
   \<and> ((\<forall>j<length (trim a). \<not> matchesAt (trim a) j) \<longrightarrow>
        credentials a = (JStr (trim a), JUndefined))"
proof (intro conjI impI)
  assume "colon \<notin> set (trim a)"
  then have "\<And>j. j < length (trim a) \<Longrightarrow> \<not> matchesAt (trim a) j"
    by (metis matchesAt_def nth_mem)
  then show "credentials a = (JStr (trim a), JUndefined)"
    by (rule credentials_no_match)
next
  assume h: "trim a = u @ colon # k \<and> colon \<notin> set u \<and> k \<noteq> [] \<and> (\<forall>c \<in> set k. \<not> isLineTerminator c)"
  then have cap: "capture (trim a) (length u) = k"
    by (simp add: capture_def)
  have m: "matchesAt (trim a) (length u)"
    using h cap by (simp add: matchesAt_def)
  have l: "\<And>j. j < length u \<Longrightarrow> \<not> matchesAt (trim a) j"
    using h by (metis matchesAt_def nth_append nth_mem)
  show "credentials a = (JStr u, JStr k)"
    using credentials_first_match [OF m l] h cap by simp
next
  assume "matchesAt (trim a) i \<and> (\<forall>j<i. \<not> matchesAt (trim a) j)"
  then show "credentials a = (JStr (take i (trim a)), JStr (capture (trim a) i))"
    using credentials_first_match by blast
next
  assume "\<forall>j<length (trim a). \<not> matchesAt (trim a) j"
  then show "credentials a = (JStr (trim a), JUndefined)"
    using credentials_no_match by blast
qed

text \<open>
  C10 on the credentials \<open>user:ke:y\<close> with spaces around them.
\<close>

theorem credentials_split_witness:
  "credentials (lit '' user:ke:y '') = (JStr (lit ''user''), JStr (lit ''ke:y''))"
proof -
  have t: "trim (lit '' user:ke:y '') = lit ''user'' @ colon # lit ''ke:y''"
    by (simp add: split_eval)
  have "colon \<notin> set (lit ''user'')" "lit ''ke:y'' \<noteq> []"
    "\<forall>c \<in> set (lit ''ke:y''). \<not> isLineTerminator c"
    by (simp_all add: split_eval)
  with t credentials_split [of "lit '' user:ke:y ''" "lit ''user''" "lit ''ke:y''"]
  show ?thesis by blast
qed

text \<open>
  C10 as stated fails: the trimmed string \<open>user:\<close> has a colon, but the user is the
  whole string and the key is \<open>undefined\<close>.
\<close>

theorem credentials_split_counterexample:
  "trim (lit ''user:'') = lit ''user'' @ [colon]
   \<and> credentials (lit ''user:'') = (JStr (lit ''user:''), JUndefined)
   \<and> credentials (lit ''user:'') \<noteq> (JStr (lit ''user''), JStr [])"
  by (simp add: split_eval)

end
